theory Spec2Isabelle
  imports Main "HOL-Library.Word"
begin

section \<open>The embedded Lua machine, as far as the map server's glue code uses it\<close>

text \<open>
  The files \<^verbatim>\<open>src/map/lua_interpreter.cpp\<close> and \<^verbatim>\<open>src/map/lua_bridge.cpp\<close> drive a
  Lua 5.4 virtual machine through its C API (\<^verbatim>\<open>lua_resume\<close> takes four arguments and
  \<^verbatim>\<open>lua_dump\<close> a strip flag, which fixes the version).  Lua itself is a third-party
  library; the first part of this theory describes the API functions the two files call,
  following the Lua 5.4 reference manual, on a fragment of the language:

  \<^item> a script is a list of statements: assignment to a global, call of a global or
    of a field of a global with arguments (results dropped), and \<^verbatim>\<open>return\<close>;
  \<^item> expressions are literals, global variables, table constructors with string keys and
    parameterless function constructors without captured locals;
  \<^item> numbers are 64-bit integers (no floats), tables are values with string keys and
    carry no metatable;
  \<^item> of the standard library \<^verbatim>\<open>error\<close> and \<^verbatim>\<open>coroutine.yield\<close> are represented.

  The second part translates the repository's own functions one by one.
\<close>

subsection \<open>Scripts and values\<close>

type_synonym lua_Integer = "64 word"

datatype expr =
    ENil
  | EBool bool
  | EInt lua_Integer
  | EStr string
  | EGlobal string
  | ETable "(string \<times> expr) list"
  | EFunction "stmt list"
and stmt =
    SAssign string expr
  | SCall string "expr list"
  | SCallField string string "expr list"
  | SReturn "expr list"

text \<open>
  The C functions a script can reach: the error handler of the compile stage, the three
  bridge functions of \<^verbatim>\<open>lua_bridge.cpp\<close>, the base library's \<^verbatim>\<open>error\<close> and the coroutine
  library's \<^verbatim>\<open>yield\<close>.
\<close>

datatype cfunction =
    C_lua_error_handler
  | C_mes
  | C_next
  | C_close
  | C_luaB_error
  | C_luaB_yield

text \<open>A pointer is an address; \<open>0\<close> is the null pointer.\<close>

type_synonym pointer = nat

datatype lua_value =
    LNil
  | LBoolean bool
  | LInteger lua_Integer
  | LString string
  | LTable "(string \<times> lua_value) list"
  | LFunction "stmt list"
  | LCFunction cfunction
  | LLightUserdata pointer
  | LThread

text \<open>
  A byte string handed to Lua's loader is represented by what the loader makes of it:
  nothing (the empty string), a text that compiles to a block, a binary chunk that
  \<^verbatim>\<open>lua_dump\<close> produced from a block, or bytes that the loader rejects with a message.
  A byte string is the list of such pieces in order; the repository never looks inside.
\<close>

datatype chunk =
    Source "stmt list"
  | Precompiled "stmt list"
  | Malformed string

type_synonym bytes = "chunk list"

text \<open>A C string pointer may be null.\<close>

type_synonym c_str = "string option"

subsection \<open>Numbers and strings\<close>

definition digit_char :: "nat \<Rightarrow> char" where
  "digit_char d = ''0123456789'' ! (d mod 10)"

fun digits_of :: "nat \<Rightarrow> string" where
  "digits_of n =
     (if n < 10 then [digit_char n]
      else digits_of (n div 10) @ [digit_char (n mod 10)])"

declare digits_of.simps [simp del]

definition int2str :: "int \<Rightarrow> string" where
  "int2str i = (if i < 0 then CHR ''-'' # digits_of (nat (- i)) else digits_of (nat i))"

definition lua_integer2str :: "lua_Integer \<Rightarrow> string" where
  "lua_integer2str n = int2str (sint n)"

fun read_digits :: "string \<Rightarrow> nat \<Rightarrow> nat option" where
  "read_digits [] acc = Some acc"
| "read_digits (c # cs) acc =
     (let d = (of_char c :: nat)
      in if 48 \<le> d \<and> d \<le> 57 then read_digits cs (10 * acc + (d - 48)) else None)"

text \<open>
  \<^verbatim>\<open>l_str2int\<close>: a string is read as an integer when it is a plain decimal numeral with an
  optional minus sign that fits 64 bits.  (Lua also reads hexadecimal and floating-point
  numerals, a plus sign, and skips surrounding blanks; such strings are outside the
  fragment.)
\<close>

definition l_str2int :: "string \<Rightarrow> lua_Integer option" where
  "l_str2int s =
     (case s of
        [] \<Rightarrow> None
      | c # cs \<Rightarrow>
          if c = CHR ''-'' then
            (if cs = [] then None
             else case read_digits cs 0 of
                    None \<Rightarrow> None
                  | Some n \<Rightarrow> if n \<le> 2 ^ 63 then Some (- word_of_nat n) else None)
          else
            (case read_digits s 0 of
               None \<Rightarrow> None
             | Some n \<Rightarrow> if n < 2 ^ 63 then Some (word_of_nat n) else None))"

subsection \<open>The state of a Lua thread and its stack\<close>

text \<open>
  \<open>stack\<close> is the part of the stack the running C code sees, bottom first: index 1 is the
  head of the list and index -1 its last element.  \<open>globals\<close> is the table of global
  variables, shared by all threads of one VM; an absent global is \<open>LNil\<close>.
  \<open>yieldable\<close> tells whether the thread is a coroutine (\<^verbatim>\<open>lua_isyieldable\<close>).
\<close>

record lua_State =
  stack :: "lua_value list"
  globals :: "string \<Rightarrow> lua_value"
  yieldable :: bool

definition LUA_OK :: int where "LUA_OK = 0"
definition LUA_YIELD :: int where "LUA_YIELD = 1"
definition LUA_ERRRUN :: int where "LUA_ERRRUN = 2"
definition LUA_ERRSYNTAX :: int where "LUA_ERRSYNTAX = 3"

definition luaL_newstate :: "lua_State" where
  "luaL_newstate = \<lparr>stack = [], globals = (\<lambda>_. LNil), yieldable = False\<rparr>"

text \<open>
  \<^verbatim>\<open>luaL_openlibs\<close> opens the standard library.  Of it, the global function \<^verbatim>\<open>error\<close> and the
  global table \<^verbatim>\<open>coroutine\<close> with its function \<^verbatim>\<open>yield\<close> are represented.
\<close>

definition luaL_openlibs :: "lua_State \<Rightarrow> lua_State" where
  "luaL_openlibs L =
     L\<lparr>globals := (globals L)
          (''error'' := LCFunction C_luaB_error,
           ''coroutine'' := LTable [(''yield'', LCFunction C_luaB_yield)])\<rparr>"

definition lua_gettop :: "lua_State \<Rightarrow> int" where
  "lua_gettop L = int (length (stack L))"

text \<open>The slot an index names, if it is within the stack.\<close>

definition index2slot :: "lua_State \<Rightarrow> int \<Rightarrow> nat option" where
  "index2slot L idx =
     (let n = int (length (stack L))
      in if 0 < idx \<and> idx \<le> n then Some (nat (idx - 1))
         else if idx < 0 \<and> - idx \<le> n then Some (nat (n + idx))
         else None)"

definition index2value :: "lua_State \<Rightarrow> int \<Rightarrow> lua_value option" where
  "index2value L idx = map_option (\<lambda>i. stack L ! i) (index2slot L idx)"

definition lua_push :: "lua_State \<Rightarrow> lua_value \<Rightarrow> lua_State" where
  "lua_push L v = L\<lparr>stack := stack L @ [v]\<rparr>"

definition lua_settop :: "lua_State \<Rightarrow> int \<Rightarrow> lua_State" where
  "lua_settop L idx =
     (let n = length (stack L);
          m = (if 0 \<le> idx then nat idx else nat (int n + idx + 1))
      in L\<lparr>stack := take m (stack L) @ replicate (m - n) LNil\<rparr>)"

definition lua_pop :: "lua_State \<Rightarrow> int \<Rightarrow> lua_State" where
  "lua_pop L n = lua_settop L (- n - 1)"

definition lua_pushvalue :: "lua_State \<Rightarrow> int \<Rightarrow> lua_State" where
  "lua_pushvalue L idx = lua_push L (case index2value L idx of None \<Rightarrow> LNil | Some v \<Rightarrow> v)"

definition lua_pushcfunction :: "lua_State \<Rightarrow> cfunction \<Rightarrow> lua_State" where
  "lua_pushcfunction L f = lua_push L (LCFunction f)"

definition lua_pushlightuserdata :: "lua_State \<Rightarrow> pointer \<Rightarrow> lua_State" where
  "lua_pushlightuserdata L p = lua_push L (LLightUserdata p)"

definition lua_pushliteral :: "lua_State \<Rightarrow> string \<Rightarrow> lua_State" where
  "lua_pushliteral L s = lua_push L (LString s)"

definition lua_getglobal :: "lua_State \<Rightarrow> string \<Rightarrow> lua_State" where
  "lua_getglobal L name = lua_push L (globals L name)"

text \<open>\<^verbatim>\<open>lua_setglobal\<close> pops the top value and stores it under the name.\<close>

definition lua_setglobal :: "lua_State \<Rightarrow> string \<Rightarrow> lua_State" where
  "lua_setglobal L name =
     (case index2value L (- 1) of
        None \<Rightarrow> L
      | Some v \<Rightarrow> (lua_pop L 1)\<lparr>globals := (globals L)(name := v)\<rparr>)"

definition lua_register :: "lua_State \<Rightarrow> string \<Rightarrow> cfunction \<Rightarrow> lua_State" where
  "lua_register L name f = lua_setglobal (lua_pushcfunction L f) name"

subsection \<open>Type tests and conversions\<close>

definition lua_isnil :: "lua_State \<Rightarrow> int \<Rightarrow> bool" where
  "lua_isnil L idx = (index2value L idx = Some LNil)"

definition lua_isnoneornil :: "lua_State \<Rightarrow> int \<Rightarrow> bool" where
  "lua_isnoneornil L idx = (case index2value L idx of None \<Rightarrow> True | Some v \<Rightarrow> v = LNil)"

definition lua_istable :: "lua_State \<Rightarrow> int \<Rightarrow> bool" where
  "lua_istable L idx = (case index2value L idx of Some (LTable _) \<Rightarrow> True | _ \<Rightarrow> False)"

definition lua_isfunction :: "lua_State \<Rightarrow> int \<Rightarrow> bool" where
  "lua_isfunction L idx =
     (case index2value L idx of
        Some (LFunction _) \<Rightarrow> True
      | Some (LCFunction _) \<Rightarrow> True
      | _ \<Rightarrow> False)"

definition lua_islightuserdata :: "lua_State \<Rightarrow> int \<Rightarrow> bool" where
  "lua_islightuserdata L idx =
     (case index2value L idx of Some (LLightUserdata _) \<Rightarrow> True | _ \<Rightarrow> False)"

text \<open>
  Lua's coercions on values: a number, or a string that reads as one, converts to an
  integer; a string, or a number, converts to a string.
\<close>

definition luaV_tointeger :: "lua_value \<Rightarrow> lua_Integer option" where
  "luaV_tointeger v =
     (case v of
        LInteger n \<Rightarrow> Some n
      | LString s \<Rightarrow> l_str2int s
      | _ \<Rightarrow> None)"

definition luaO_tostring :: "lua_value \<Rightarrow> c_str" where
  "luaO_tostring v =
     (case v of
        LString s \<Rightarrow> Some s
      | LInteger n \<Rightarrow> Some (lua_integer2str n)
      | _ \<Rightarrow> None)"

definition lua_isnumber :: "lua_State \<Rightarrow> int \<Rightarrow> bool" where
  "lua_isnumber L idx =
     (case index2value L idx of None \<Rightarrow> False | Some v \<Rightarrow> luaV_tointeger v \<noteq> None)"

definition lua_isstring :: "lua_State \<Rightarrow> int \<Rightarrow> bool" where
  "lua_isstring L idx =
     (case index2value L idx of None \<Rightarrow> False | Some v \<Rightarrow> luaO_tostring v \<noteq> None)"

definition lua_tointeger :: "lua_State \<Rightarrow> int \<Rightarrow> lua_Integer" where
  "lua_tointeger L idx =
     (case index2value L idx of
        None \<Rightarrow> 0
      | Some v \<Rightarrow> (case luaV_tointeger v of None \<Rightarrow> 0 | Some n \<Rightarrow> n))"

text \<open>
  \<^verbatim>\<open>lua_tostring\<close> returns null unless the value is a string or a number; a number is
  converted to a string in its stack slot.
\<close>

definition lua_tostring :: "lua_State \<Rightarrow> int \<Rightarrow> c_str \<times> lua_State" where
  "lua_tostring L idx =
     (case index2slot L idx of
        None \<Rightarrow> (None, L)
      | Some i \<Rightarrow>
          (case luaO_tostring (stack L ! i) of
             None \<Rightarrow> (None, L)
           | Some s \<Rightarrow> (Some s, L\<lparr>stack := (stack L)[i := LString s]\<rparr>)))"

definition lua_touserdata :: "lua_State \<Rightarrow> int \<Rightarrow> pointer" where
  "lua_touserdata L idx =
     (case index2value L idx of Some (LLightUserdata p) \<Rightarrow> p | _ \<Rightarrow> 0)"

subsection \<open>Tables\<close>

definition table_get :: "(string \<times> lua_value) list \<Rightarrow> string \<Rightarrow> lua_value" where
  "table_get t k = (case map_of t k of None \<Rightarrow> LNil | Some v \<Rightarrow> v)"

text \<open>Storing \<open>LNil\<close> removes the key.\<close>

definition table_set :: "(string \<times> lua_value) list \<Rightarrow> string \<Rightarrow> lua_value \<Rightarrow> (string \<times> lua_value) list" where
  "table_set t k v =
     (case v of
        LNil \<Rightarrow> filter (\<lambda>p. fst p \<noteq> k) t
      | _ \<Rightarrow> (k, v) # filter (\<lambda>p. fst p \<noteq> k) t)"

definition luaT_typename :: "lua_value option \<Rightarrow> string" where
  "luaT_typename v =
     (case v of
        None \<Rightarrow> ''no value''
      | Some LNil \<Rightarrow> ''nil''
      | Some (LBoolean _) \<Rightarrow> ''boolean''
      | Some (LInteger _) \<Rightarrow> ''number''
      | Some (LString _) \<Rightarrow> ''string''
      | Some (LTable _) \<Rightarrow> ''table''
      | Some (LFunction _) \<Rightarrow> ''function''
      | Some (LCFunction _) \<Rightarrow> ''function''
      | Some (LLightUserdata _) \<Rightarrow> ''userdata''
      | Some LThread \<Rightarrow> ''thread'')"

text \<open>
  \<^verbatim>\<open>lua_getfield\<close> pushes \<open>t[k]\<close> for the value \<open>t\<close> at the index.  Indexing a string goes
  to the string library, which has none of the keys the repository asks for, so the
  result is \<open>LNil\<close>.  Any other value has no \<^verbatim>\<open>__index\<close> metamethod here and Lua raises
  an error (\<open>Inl\<close>, the error object).
\<close>

definition lua_getfield :: "lua_State \<Rightarrow> int \<Rightarrow> string \<Rightarrow> lua_value + lua_State" where
  "lua_getfield L idx k =
     (case index2value L idx of
        Some (LTable t) \<Rightarrow> Inr (lua_push L (table_get t k))
      | Some (LString s) \<Rightarrow> Inr (lua_push L LNil)
      | v \<Rightarrow> Inl (LString (''attempt to index a '' @ luaT_typename v @ '' value'')))"

text \<open>The same lookup on a value, as the interpreter loop does it for \<^verbatim>\<open>t.k\<close>.\<close>

definition luaV_gettable :: "lua_value \<Rightarrow> string \<Rightarrow> lua_value + lua_value" where
  "luaV_gettable v k =
     (case v of
        LTable t \<Rightarrow> Inr (table_get t k)
      | LString s \<Rightarrow> Inr LNil
      | _ \<Rightarrow> Inl (LString (''attempt to index a '' @ luaT_typename (Some v) @ '' value'')))"

text \<open>
  \<^verbatim>\<open>luaL_traceback\<close> pushes the message followed by a line break, the words
  \<^verbatim>\<open>stack traceback:\<close> and one line per frame; the frame lines are left out.
\<close>

definition luaL_traceback :: "lua_State \<Rightarrow> string \<Rightarrow> lua_State" where
  "luaL_traceback L msg = lua_push L (LString (msg @ [CHR 0x0A] @ ''stack traceback:''))"

text \<open>
  \<^verbatim>\<open>luaL_callmeta\<close> calls a metamethod of the object if it has one.  No value of the
  fragment has a \<^verbatim>\<open>__tostring\<close> metamethod, so nothing is called or pushed.
\<close>

definition luaL_callmeta :: "lua_State \<Rightarrow> int \<Rightarrow> string \<Rightarrow> bool \<times> lua_State" where
  "luaL_callmeta L obj event = (False, L)"

subsection \<open>The host side: network layer, log and NPC memory\<close>

type_synonym c_int = "32 word"

datatype packet =
    ScriptMes pointer c_int c_str
  | ScriptNext pointer c_int
  | ScriptClose pointer c_int

record npc_data =
  bl_id :: c_int

text \<open>
  \<open>packets\<close> is what the network layer has been asked to send, oldest first; \<open>warnings\<close> is
  the console log; \<open>npc_heap\<close> is what a read through an \<^verbatim>\<open>npc_data*\<close> finds.
\<close>

record world =
  packets :: "packet list"
  warnings :: "string list"
  npc_heap :: "pointer \<Rightarrow> npc_data"

text \<open>
  Modelled from the spec: \<^verbatim>\<open>clif_scriptmes\<close> of \<^verbatim>\<open>clif.cpp\<close>, which is not among the
  sources: "send dialogue text for session S addressed from entity E", fire and forget.
\<close>

definition clif_scriptmes :: "pointer \<Rightarrow> c_int \<Rightarrow> c_str \<Rightarrow> world \<Rightarrow> world" where
  "clif_scriptmes s npcid msg w = w\<lparr>packets := packets w @ [ScriptMes s npcid msg]\<rparr>"

text \<open>
  Modelled from the spec: \<^verbatim>\<open>clif_scriptnext\<close> of \<^verbatim>\<open>clif.cpp\<close>: "notify session S dialogue
  may advance for entity E".
\<close>

definition clif_scriptnext :: "pointer \<Rightarrow> c_int \<Rightarrow> world \<Rightarrow> world" where
  "clif_scriptnext s npcid w = w\<lparr>packets := packets w @ [ScriptNext s npcid]\<rparr>"

text \<open>
  Modelled from the spec: \<^verbatim>\<open>clif_scriptclose\<close> of \<^verbatim>\<open>clif.cpp\<close>: "notify session S dialogue
  ended for entity E".
\<close>

definition clif_scriptclose :: "pointer \<Rightarrow> c_int \<Rightarrow> world \<Rightarrow> world" where
  "clif_scriptclose s npcid w = w\<lparr>packets := packets w @ [ScriptClose s npcid]\<rparr>"

text \<open>
  Modelled from the spec: \<^verbatim>\<open>ShowWarning\<close> of \<^verbatim>\<open>common/showmsg.cpp\<close>, which is not among the
  sources: the callable "logs a descriptive warning".
\<close>

definition ShowWarning :: "string \<Rightarrow> world \<Rightarrow> world" where
  "ShowWarning msg w = w\<lparr>warnings := warnings w @ [msg]\<rparr>"

section \<open>The C functions of the repository that Lua calls\<close>

text \<open>
  Record fields are constants in Isabelle, so the fields of the repository's structs carry
  a short prefix (\<open>rd_\<close>, \<open>wr_\<close>, \<open>sc_\<close>, \<open>bc_\<close>, \<open>md_\<close>, \<open>in_\<close>, \<open>ex_\<close>) in front of the
  source's name.  The functions of namespace \<^verbatim>\<open>lua_bridge\<close> are \<open>lua_bridge_mes\<close>,
  \<open>lua_bridge_next\<close> and \<open>lua_bridge_close\<close>.
\<close>

subsection \<open>\<^verbatim>\<open>lua_error_handler\<close> (lua_interpreter.cpp)\<close>

definition lua_error_handler :: "lua_State \<Rightarrow> int \<times> lua_State" where
  "lua_error_handler lua =
     (case lua_tostring lua 1 of
        (Some message, L1) \<Rightarrow> (1, luaL_traceback L1 message)
      | (None, L1) \<Rightarrow>
          if \<not> lua_isnoneornil L1 1 then
            (case luaL_callmeta L1 1 ''__tostring'' of
               (True, L2) \<Rightarrow> (1, L2)
             | (False, L2) \<Rightarrow> (1, lua_pushliteral L2 ''(no error message)''))
          else (1, L1))"

subsection \<open>\<^verbatim>\<open>lua_helpers\<close> (lua_bridge.hpp)\<close>

definition extract_user_data :: "lua_State \<Rightarrow> string \<Rightarrow> pointer \<times> lua_State" where
  "extract_user_data L name =
     (let L1 = lua_getglobal L name
      in if \<not> lua_islightuserdata L1 (- 1) then (0, lua_pop L1 1)
         else (let user_data = lua_touserdata L1 (- 1) in (user_data, lua_pop L1 1)))"

definition SD_LUA_VARIABLE :: string where
  "SD_LUA_VARIABLE = ''__map_session_data__''"

definition ND_LUA_VARIABLE :: string where
  "ND_LUA_VARIABLE = ''__npc_data__''"

definition extract_session_data :: "lua_State \<Rightarrow> pointer \<times> lua_State" where
  "extract_session_data L = extract_user_data L SD_LUA_VARIABLE"

definition extract_npc_data :: "lua_State \<Rightarrow> pointer \<times> lua_State" where
  "extract_npc_data L = extract_user_data L ND_LUA_VARIABLE"

subsection \<open>\<^verbatim>\<open>script_context\<close> and the bridge functions (lua_bridge.cpp)\<close>

record script_context =
  sc_sd :: pointer
  sc_nd :: pointer
  sc_args :: int

definition script_context_ctor :: "lua_State \<Rightarrow> script_context \<times> lua_State" where
  "script_context_ctor L =
     (let args = lua_gettop L;
          (sd, L1) = extract_session_data L;
          (nd, L2) = extract_npc_data L1
      in (\<lparr>sc_sd = sd, sc_nd = nd, sc_args = args\<rparr>, L2))"

definition is_valid :: "script_context \<Rightarrow> bool" where
  "is_valid context = (sc_sd context \<noteq> 0 \<and> sc_nd context \<noteq> 0)"

text \<open>
  What a C function hands back to Lua: a number of results, a yield (\<^verbatim>\<open>lua_yield\<close> does
  not return to its caller), or a raised error with its error object.
\<close>

datatype c_result = CReturn int | CYield int | CError lua_value

definition lua_yield :: "lua_State \<Rightarrow> int \<Rightarrow> c_result" where
  "lua_yield L nresults =
     (if yieldable L then CYield nresults
      else CError (LString ''attempt to yield from outside a coroutine''))"

definition lua_bridge_mes :: "lua_State \<Rightarrow> world \<Rightarrow> c_result \<times> lua_State \<times> world" where
  "lua_bridge_mes L w =
     (let (context, L1) = script_context_ctor L
      in if \<not> is_valid context then
           (CReturn 0, L1,
            ShowWarning (''[lua::mes]: Trying to call with no proper context.'' @ [CHR 0x0A]) w)
         else if sc_args context < 1 then
           (CReturn 0, L1,
            ShowWarning (''[lua::mes]: Trying to call with no parameters.'' @ [CHR 0x0A]) w)
         else if \<not> lua_isstring L1 1 then
           (CReturn 0, L1,
            ShowWarning (''[lua::mes]: First parameter must be a string.'' @ [CHR 0x0A]) w)
         else
           (let (msg, L2) = lua_tostring L1 1
            in (CReturn 0, L2,
                clif_scriptmes (sc_sd context) (bl_id (npc_heap w (sc_nd context))) msg w)))"

definition lua_bridge_next :: "lua_State \<Rightarrow> world \<Rightarrow> c_result \<times> lua_State \<times> world" where
  "lua_bridge_next L w =
     (let (context, L1) = script_context_ctor L
      in if \<not> is_valid context then (CReturn 0, L1, w)
         else
           (let w1 = clif_scriptnext (sc_sd context) (bl_id (npc_heap w (sc_nd context))) w
            in (lua_yield L1 0, L1, w1)))"

definition lua_bridge_close :: "lua_State \<Rightarrow> world \<Rightarrow> c_result \<times> lua_State \<times> world" where
  "lua_bridge_close L w =
     (let (context, L1) = script_context_ctor L
      in if \<not> is_valid context then (CReturn 0, L1, w)
         else
           (let w1 = clif_scriptclose (sc_sd context) (bl_id (npc_heap w (sc_nd context))) w
            in (CReturn 0, L1, w1)))"

section \<open>Running Lua code\<close>

text \<open>
  The base library's \<^verbatim>\<open>error\<close> raises its first argument (\<open>LNil\<close> if there is none).  The
  position that Lua puts in front of a string message is left out.
\<close>

definition luaB_error :: "lua_State \<Rightarrow> c_result" where
  "luaB_error L = CError (case index2value L 1 of None \<Rightarrow> LNil | Some v \<Rightarrow> v)"

text \<open>The coroutine library's \<^verbatim>\<open>yield\<close> yields all its arguments.\<close>

definition luaB_yield :: "lua_State \<Rightarrow> c_result" where
  "luaB_yield L = lua_yield L (lua_gettop L)"

text \<open>Calling a C function: Lua runs it on a stack that holds the arguments.\<close>

definition luaD_precallC :: "cfunction \<Rightarrow> lua_State \<Rightarrow> world \<Rightarrow> c_result \<times> lua_State \<times> world" where
  "luaD_precallC f L w =
     (case f of
        C_lua_error_handler \<Rightarrow> (let (n, L1) = lua_error_handler L in (CReturn n, L1, w))
      | C_mes \<Rightarrow> lua_bridge_mes L w
      | C_next \<Rightarrow> lua_bridge_next L w
      | C_close \<Rightarrow> lua_bridge_close L w
      | C_luaB_error \<Rightarrow> (luaB_error L, L, w)
      | C_luaB_yield \<Rightarrow> (luaB_yield L, L, w))"

text \<open>
  A table constructor assigns its fields from left to right, so a later field with the
  same key wins.
\<close>

primrec luaV_eval :: "(string \<Rightarrow> lua_value) \<Rightarrow> expr \<Rightarrow> lua_value" where
  "luaV_eval g ENil = LNil"
| "luaV_eval g (EBool b) = LBoolean b"
| "luaV_eval g (EInt n) = LInteger n"
| "luaV_eval g (EStr s) = LString s"
| "luaV_eval g (EGlobal name) = g name"
| "luaV_eval g (ETable kvs) =
     LTable (foldl (\<lambda>t p. table_set t (fst p) (snd p)) []
               (map (map_prod id (luaV_eval g)) kvs))"
| "luaV_eval g (EFunction body) = LFunction body"

text \<open>
  How a run of Lua code ends: it returns values, it yields (what is left to run is the
  chain of pending Lua functions, innermost first), or it raises an error.
\<close>

datatype signal =
    Finished "lua_value list"
  | Yielded "stmt list list"
  | Raised lua_value

text \<open>
  The interpreter loop.  The first argument bounds the number of steps: \<open>None\<close> means the
  bound was reached, which is how a script that never ends shows.  The second argument
  tells whether the code runs inside a coroutine.  The head of the chain is the rest of
  the function that is running.
\<close>

fun luaV_execute ::
  "nat \<Rightarrow> bool \<Rightarrow> stmt list list \<Rightarrow> (string \<Rightarrow> lua_value) \<Rightarrow> world \<Rightarrow>
   (signal \<times> (string \<Rightarrow> lua_value) \<times> world) option" where
  "luaV_execute 0 y ci g w = None"
| "luaV_execute (Suc n) y [] g w = Some (Finished [], g, w)"
| "luaV_execute (Suc n) y ([] # ci) g w =
     (if ci = [] then Some (Finished [], g, w) else luaV_execute n y ci g w)"
| "luaV_execute (Suc n) y ((SReturn es # rest) # ci) g w =
     (if ci = [] then Some (Finished (map (luaV_eval g) es), g, w) else luaV_execute n y ci g w)"
| "luaV_execute (Suc n) y ((SAssign name e # rest) # ci) g w =
     luaV_execute n y (rest # ci) (g(name := luaV_eval g e)) w"
| "luaV_execute (Suc n) y ((SCall name args # rest) # ci) g w =
     (case g name of
        LFunction body \<Rightarrow> luaV_execute n y (body # rest # ci) g w
      | LCFunction f \<Rightarrow>
          (case luaD_precallC f \<lparr>stack = map (luaV_eval g) args, globals = g, yieldable = y\<rparr> w of
             (CReturn k, L, w1) \<Rightarrow> luaV_execute n y (rest # ci) (globals L) w1
           | (CYield k, L, w1) \<Rightarrow> Some (Yielded (rest # ci), globals L, w1)
           | (CError v, L, w1) \<Rightarrow> Some (Raised v, globals L, w1))
      | v \<Rightarrow>
          Some (Raised (LString (''attempt to call a '' @ luaT_typename (Some v) @ '' value'')),
                g, w))"
| "luaV_execute (Suc n) y ((SCallField tname key args # rest) # ci) g w =
     (case luaV_gettable (g tname) key of
        Inl e \<Rightarrow> Some (Raised e, g, w)
      | Inr (LFunction body) \<Rightarrow> luaV_execute n y (body # rest # ci) g w
      | Inr (LCFunction f) \<Rightarrow>
          (case luaD_precallC f \<lparr>stack = map (luaV_eval g) args, globals = g, yieldable = y\<rparr> w of
             (CReturn k, L, w1) \<Rightarrow> luaV_execute n y (rest # ci) (globals L) w1
           | (CYield k, L, w1) \<Rightarrow> Some (Yielded (rest # ci), globals L, w1)
           | (CError v, L, w1) \<Rightarrow> Some (Raised v, globals L, w1))
      | Inr v \<Rightarrow>
          Some (Raised (LString (''attempt to call a '' @ luaT_typename (Some v) @ '' value'')),
                g, w))"

text \<open>Calling a value from C, with its arguments.\<close>

definition luaD_call ::
  "nat \<Rightarrow> bool \<Rightarrow> lua_value \<Rightarrow> lua_value list \<Rightarrow> (string \<Rightarrow> lua_value) \<Rightarrow> world \<Rightarrow>
   (signal \<times> (string \<Rightarrow> lua_value) \<times> world) option" where
  "luaD_call fuel y func args g w =
     (case func of
        LFunction body \<Rightarrow> luaV_execute fuel y [body] g w
      | LCFunction f \<Rightarrow>
          (case luaD_precallC f \<lparr>stack = args, globals = g, yieldable = y\<rparr> w of
             (CReturn k, L, w1) \<Rightarrow>
               Some (Finished (drop (length (stack L) - nat k) (stack L)), globals L, w1)
           | (CYield k, L, w1) \<Rightarrow> Some (Yielded [], globals L, w1)
           | (CError v, L, w1) \<Rightarrow> Some (Raised v, globals L, w1))
      | v \<Rightarrow>
          Some (Raised (LString (''attempt to call a '' @ luaT_typename (Some v) @ '' value'')),
                g, w))"

subsection \<open>Protected calls\<close>

definition adjust_results :: "nat \<Rightarrow> lua_value list \<Rightarrow> lua_value list" where
  "adjust_results n rs = take n rs @ replicate (n - length rs) LNil"

definition LUA_ERRERR :: int where "LUA_ERRERR = 5"

text \<open>
  \<^verbatim>\<open>lua_pcall(L, nargs, nresults, msgh)\<close> calls the function below the arguments.  On
  success the function and its arguments are replaced by \<open>nresults\<close> results.  On an error
  the message handler at stack index \<open>msgh\<close> (none if \<open>0\<close>) is called with the error
  object and what it returns replaces the function and its arguments.  No yield can cross
  the call.
\<close>

definition lua_pcall ::
  "nat \<Rightarrow> lua_State \<Rightarrow> nat \<Rightarrow> nat \<Rightarrow> int \<Rightarrow> world \<Rightarrow> (int \<times> lua_State \<times> world) option" where
  "lua_pcall fuel L nargs nresults msgh w =
     (let n = length (stack L);
          func = (case index2value L (- int nargs - 1) of None \<Rightarrow> LNil | Some v \<Rightarrow> v);
          args = drop (n - nargs) (stack L);
          base = take (n - nargs - 1) (stack L);
          handler = (if msgh = 0 then None else index2value L msgh)
      in case luaD_call fuel False func args (globals L) w of
           None \<Rightarrow> None
         | Some (Finished rs, g1, w1) \<Rightarrow>
             Some (LUA_OK, L\<lparr>stack := base @ adjust_results nresults rs, globals := g1\<rparr>, w1)
         | Some (Yielded ci, g1, w1) \<Rightarrow>
             Some (LUA_ERRRUN,
                   L\<lparr>stack := base @ [LString ''attempt to yield across a C-call boundary''],
                      globals := g1\<rparr>, w1)
         | Some (Raised v, g1, w1) \<Rightarrow>
             (case handler of
                None \<Rightarrow> Some (LUA_ERRRUN, L\<lparr>stack := base @ [v], globals := g1\<rparr>, w1)
              | Some h \<Rightarrow>
                  (case luaD_call fuel False h [v] g1 w1 of
                     None \<Rightarrow> None
                   | Some (Finished rs, g2, w2) \<Rightarrow>
                       Some (LUA_ERRRUN,
                             L\<lparr>stack := base @ adjust_results 1 rs, globals := g2\<rparr>, w2)
                   | Some (Yielded ci, g2, w2) \<Rightarrow>
                       Some (LUA_ERRERR, L\<lparr>stack := base @ [v], globals := g2\<rparr>, w2)
                   | Some (Raised v2, g2, w2) \<Rightarrow>
                       Some (LUA_ERRERR, L\<lparr>stack := base @ [v2], globals := g2\<rparr>, w2))))"

subsection \<open>Loading and dumping chunks\<close>

text \<open>
  The mode string of the loader: null allows text and binary chunks, otherwise the chunk's
  kind (\<open>t\<close> or \<open>b\<close>) must occur in the string.
\<close>

definition mode_allows :: "string option \<Rightarrow> char \<Rightarrow> bool" where
  "mode_allows mode kind = (case mode of None \<Rightarrow> True | Some m \<Rightarrow> kind \<in> set m)"

text \<open>
  What the loader makes of a byte string, given the mode: the empty string is the empty
  program, a text or a binary chunk is accepted if the mode allows its kind, and anything
  else is rejected with a message.  A string of several pieces is not a chunk.
\<close>

datatype load_result = Loaded "stmt list" | Rejected string

fun luaD_protectedparser :: "bytes \<Rightarrow> string option \<Rightarrow> load_result" where
  "luaD_protectedparser [] mode =
     (if mode_allows mode CHR ''t'' then Loaded []
      else Rejected ''attempt to load a text chunk'')"
| "luaD_protectedparser [Source body] mode =
     (if mode_allows mode CHR ''t'' then Loaded body
      else Rejected ''attempt to load a text chunk'')"
| "luaD_protectedparser [Precompiled body] mode =
     (if mode_allows mode CHR ''b'' then Loaded body
      else Rejected ''attempt to load a binary chunk'')"
| "luaD_protectedparser [Malformed msg] mode = Rejected msg"
| "luaD_protectedparser (c # d # cs) mode = Rejected ''unexpected symbol''"

text \<open>
  \<^verbatim>\<open>lua_load\<close> asks the reader for pieces until it signals the end with null or an empty
  piece.  The calls are followed for a reader that ends the stream at its second call at
  the latest, as the repository's reader does.
\<close>

definition luaZ_fill :: "('d \<Rightarrow> bytes option \<times> 'd) \<Rightarrow> 'd \<Rightarrow> bytes" where
  "luaZ_fill reader data =
     (case reader data of
        (None, d1) \<Rightarrow> []
      | (Some piece, d1) \<Rightarrow>
          if piece = [] then []
          else (case reader d1 of (None, d2) \<Rightarrow> piece | (Some piece2, d2) \<Rightarrow> piece @ piece2))"

definition lua_load ::
  "lua_State \<Rightarrow> ('d \<Rightarrow> bytes option \<times> 'd) \<Rightarrow> 'd \<Rightarrow> string \<Rightarrow> string option \<Rightarrow> int \<times> lua_State" where
  "lua_load L reader data chunkname mode =
     (case luaD_protectedparser (luaZ_fill reader data) mode of
        Loaded body \<Rightarrow> (LUA_OK, lua_push L (LFunction body))
      | Rejected msg \<Rightarrow> (LUA_ERRSYNTAX, lua_push L (LString msg)))"

definition luaL_loadbufferx ::
  "lua_State \<Rightarrow> bytes \<Rightarrow> nat \<Rightarrow> string \<Rightarrow> string option \<Rightarrow> int \<times> lua_State" where
  "luaL_loadbufferx L buff sz name mode =
     (case luaD_protectedparser (take sz buff) mode of
        Loaded body \<Rightarrow> (LUA_OK, lua_push L (LFunction body))
      | Rejected msg \<Rightarrow> (LUA_ERRSYNTAX, lua_push L (LString msg)))"

text \<open>
  \<^verbatim>\<open>lauxlib.h\<close> defines \<^verbatim>\<open>luaL_loadbuffer(L,s,sz,n)\<close> as \<^verbatim>\<open>luaL_loadbufferx(L,s,sz,n,NULL)\<close>: its
  fourth argument is the chunk's name and the mode is null.
\<close>

definition luaL_loadbuffer :: "lua_State \<Rightarrow> bytes \<Rightarrow> nat \<Rightarrow> string \<Rightarrow> int \<times> lua_State" where
  "luaL_loadbuffer L buff sz name = luaL_loadbufferx L buff sz name None"

text \<open>
  \<^verbatim>\<open>lua_dump\<close> writes the Lua function on top of the stack as a binary chunk through the
  writer and returns the writer's last status; for a value that is not a Lua function it
  writes nothing and returns 1.  The chunk goes to the writer as one piece.
\<close>

definition lua_dump ::
  "lua_State \<Rightarrow> (lua_State \<Rightarrow> bytes \<Rightarrow> nat \<Rightarrow> 'd \<Rightarrow> int \<times> 'd) \<Rightarrow> 'd \<Rightarrow> int \<Rightarrow> int \<times> 'd" where
  "lua_dump L writer data strip =
     (case index2value L (- 1) of
        Some (LFunction body) \<Rightarrow> writer L [Precompiled body] 1 data
      | _ \<Rightarrow> (1, data))"

subsection \<open>Coroutines\<close>

text \<open>
  A coroutine has its own stack, status and chain of pending functions, and shares the
  globals of the VM that created it.
\<close>

record lua_thread =
  th_stack :: "lua_value list"
  th_ci :: "stmt list list"
  th_status :: int

definition lua_newthread :: "lua_State \<Rightarrow> lua_thread \<times> lua_State" where
  "lua_newthread L = (\<lparr>th_stack = [], th_ci = [], th_status = LUA_OK\<rparr>, lua_push L LThread)"

definition lua_xmove :: "lua_State \<Rightarrow> lua_thread \<Rightarrow> nat \<Rightarrow> lua_State \<times> lua_thread" where
  "lua_xmove src dst n =
     (let k = length (stack src) - n
      in (src\<lparr>stack := take k (stack src)\<rparr>,
          dst\<lparr>th_stack := th_stack dst @ drop k (stack src)\<rparr>))"

text \<open>
  \<^verbatim>\<open>lua_resume\<close> starts the function below the arguments on the coroutine's stack when the
  status is \<^verbatim>\<open>LUA_OK\<close>, or continues after the yield when it is \<^verbatim>\<open>LUA_YIELD\<close>.  It returns
  \<^verbatim>\<open>LUA_OK\<close> when the coroutine finished, \<^verbatim>\<open>LUA_YIELD\<close> when it yielded, and an error code
  with the error object on the stack otherwise.
\<close>

definition lua_resume ::
  "nat \<Rightarrow> lua_thread \<Rightarrow> nat \<Rightarrow> (string \<Rightarrow> lua_value) \<Rightarrow> world \<Rightarrow>
   (int \<times> lua_thread \<times> (string \<Rightarrow> lua_value) \<times> world) option" where
  "lua_resume fuel co nargs g w =
     (let n = length (th_stack co);
          dead = (LUA_ERRRUN,
                  co\<lparr>th_stack := take (n - nargs) (th_stack co) @
                                  [LString ''cannot resume dead coroutine'']\<rparr>, g, w);
          outcome = (if th_status co = LUA_OK
                     then luaD_call fuel True (th_stack co ! (n - nargs - 1))
                            (drop (n - nargs) (th_stack co)) g w
                     else luaV_execute fuel True (th_ci co) g w);
          base = (if th_status co = LUA_OK then take (n - nargs - 1) (th_stack co) else [])
      in if th_status co = LUA_OK \<and> n \<le> nargs then Some dead
         else if th_status co \<noteq> LUA_OK \<and> th_status co \<noteq> LUA_YIELD then Some dead
         else
           (case outcome of
              None \<Rightarrow> None
            | Some (Finished rs, g1, w1) \<Rightarrow>
                Some (LUA_OK, \<lparr>th_stack = base @ rs, th_ci = [], th_status = LUA_OK\<rparr>, g1, w1)
            | Some (Yielded ci, g1, w1) \<Rightarrow>
                Some (LUA_YIELD, \<lparr>th_stack = [], th_ci = ci, th_status = LUA_YIELD\<rparr>, g1, w1)
            | Some (Raised v, g1, w1) \<Rightarrow>
                Some (LUA_ERRRUN,
                      \<lparr>th_stack = th_stack co @ [v], th_ci = [], th_status = LUA_ERRRUN\<rparr>,
                      g1, w1)))"



section \<open>The compile stage: \<^verbatim>\<open>lua::interpreter\<close> (lua_interpreter.cpp)\<close>

text \<open>
  How a function of the repository ends: it returns, or the process stops (an error
  raised by Lua outside any protected call ends in Lua's panic function and \<^verbatim>\<open>abort\<close>; a
  \<^verbatim>\<open>std::string\<close> built from a null pointer and a call through a null thread pointer are
  undefined behaviour), or the step bound of the interpreter loop was reached.
\<close>

datatype failure = Unprotected lua_value | NullString | NullThread

datatype 'a result = Done 'a | Abort failure | Timeout

definition result_bind :: "'a result \<Rightarrow> ('a \<Rightarrow> 'b result) \<Rightarrow> 'b result" where
  "result_bind r f = (case r of Done a \<Rightarrow> f a | Abort e \<Rightarrow> Abort e | Timeout \<Rightarrow> Timeout)"

text \<open>
  The reader and the writer that the compile stage hands to \<^verbatim>\<open>lua_load\<close> and \<^verbatim>\<open>lua_dump\<close>.
  The reader does not use its Lua state argument, which is left out; sizes count pieces.
\<close>

record lua_reader_state =
  rd_chunk :: bytes
  rd_read :: bool

definition lua_reader :: "lua_reader_state \<Rightarrow> bytes option \<times> lua_reader_state" where
  "lua_reader state =
     (if rd_read state then (None, state)
      else (Some (rd_chunk state), state\<lparr>rd_read := True\<rparr>))"

record lua_writer_state =
  wr_stream :: bytes
  wr_total_size :: nat

definition lua_writer :: "lua_State \<Rightarrow> bytes \<Rightarrow> nat \<Rightarrow> lua_writer_state \<Rightarrow> int \<times> lua_writer_state" where
  "lua_writer lua buffer sz state =
     (0, state\<lparr>wr_stream := wr_stream state @ take sz buffer,
               wr_total_size := wr_total_size state + sz\<rparr>)"

record bytecode =
  bc_bytes :: bytes

record script_metadata =
  md_path :: string
  md_map :: string
  md_x :: c_int
  md_y :: c_int
  md_facing :: c_int
  md_name :: string
  md_sprite :: c_int
  md_code :: "bytecode option"

record interpreter_impl =
  in_lua :: lua_State

definition interpreter :: interpreter_impl where
  "interpreter = \<lparr>in_lua = luaL_openlibs luaL_newstate\<rparr>"

definition fetch_number :: "interpreter_impl \<Rightarrow> string \<Rightarrow> (c_int \<times> interpreter_impl) result" where
  "fetch_number self name =
     (case lua_getfield (in_lua self) (- 1) name of
        Inl e \<Rightarrow> Abort (Unprotected e)
      | Inr L1 \<Rightarrow>
          if \<not> lua_isnumber L1 (- 1) then Done (0, self\<lparr>in_lua := L1\<rparr>)
          else
            (let number = (ucast (lua_tointeger L1 (- 1)) :: c_int);
                 L2 = lua_pop L1 1
             in Done (number, self\<lparr>in_lua := L2\<rparr>)))"

text \<open>
  A C string ends at its first NUL character; the strings of the scripts considered here
  hold none, so \<open>fetch_string\<close> returns the Lua string as it is.
\<close>

definition fetch_string :: "interpreter_impl \<Rightarrow> string \<Rightarrow> (string \<times> interpreter_impl) result" where
  "fetch_string self name =
     (case lua_getfield (in_lua self) (- 1) name of
        Inl e \<Rightarrow> Abort (Unprotected e)
      | Inr L1 \<Rightarrow>
          if \<not> lua_isstring L1 (- 1) then Done ([], self\<lparr>in_lua := L1\<rparr>)
          else
            (let (str, L2) = lua_tostring L1 (- 1);
                 L3 = lua_pop L2 1
             in case str of
                  None \<Rightarrow> Abort NullString
                | Some s \<Rightarrow> Done (s, self\<lparr>in_lua := L3\<rparr>)))"

definition fetch_metadata :: "interpreter_impl \<Rightarrow> (script_metadata option \<times> interpreter_impl) result" where
  "fetch_metadata self =
     (if \<not> lua_istable (in_lua self) (- 1) then Done (None, self)
      else
        result_bind (fetch_number self ''x'') (\<lambda>(x, s1).
        result_bind (fetch_number s1 ''y'') (\<lambda>(y, s2).
        result_bind (fetch_number s2 ''facing'') (\<lambda>(facing, s3).
        result_bind (fetch_number s3 ''sprite'') (\<lambda>(sprite, s4).
        result_bind (fetch_string s4 ''map'') (\<lambda>(mapname, s5).
        result_bind (fetch_string s5 ''name'') (\<lambda>(name, s6).
          let metadata = \<lparr>md_path = [], md_map = mapname, md_x = x, md_y = y,
                          md_facing = facing, md_name = name, md_sprite = sprite,
                          md_code = None\<rparr>;
              L1 = lua_settop (in_lua s6) 0;
              L2 = lua_getglobal L1 ''script''
          in if \<not> lua_isfunction L2 (- 1) then Done (Some metadata, s6\<lparr>in_lua := L2\<rparr>)
             else
               (let writer_state = \<lparr>wr_stream = [], wr_total_size = 0\<rparr>;
                    strip_debug_info = 1;
                    (rc, writer_state1) = lua_dump L2 lua_writer writer_state strip_debug_info;
                    code = \<lparr>bc_bytes = take (wr_total_size writer_state1)
                                            (wr_stream writer_state1)\<rparr>
                in Done (Some (metadata\<lparr>md_code := Some code\<rparr>), s6\<lparr>in_lua := L2\<rparr>)))))))))"

text \<open>
  The file system maps a path to the file's content; a file that cannot be opened leaves
  the string stream empty.  \<open>w\<close> is the host state while the script's top level runs.
\<close>

definition extract_metadata ::
  "nat \<Rightarrow> (string \<Rightarrow> bytes option) \<Rightarrow> interpreter_impl \<Rightarrow> string \<Rightarrow> world \<Rightarrow>
   (script_metadata option \<times> interpreter_impl \<times> world) result" where
  "extract_metadata fuel fs self path w =
     (let script = (case fs path of None \<Rightarrow> [] | Some content \<Rightarrow> content);
          L1 = lua_settop (in_lua self) 0;
          L2 = lua_pushcfunction L1 C_lua_error_handler;
          reader_state = \<lparr>rd_chunk = script, rd_read = False\<rparr>;
          (lua_load_result, L3) = lua_load L2 lua_reader reader_state (''='' @ path) (Some ''t'')
      in result_bind
           (if lua_load_result = LUA_OK then
              (case lua_pcall fuel L3 0 1 1 w of
                 None \<Rightarrow> Timeout
               | Some (rc, L4, w1) \<Rightarrow>
                   if rc \<noteq> LUA_OK then
                     (if \<not> lua_isnil L4 (- 1) then
                        (case lua_tostring L4 (- 1) of
                           (None, L5) \<Rightarrow> Abort NullString
                         | (Some msg, L5) \<Rightarrow> Done (msg, L5, w1))
                      else Done ([], L4, w1))
                   else Done ([], L4, w1))
            else if lua_load_result = LUA_ERRSYNTAX then
              (case lua_tostring L3 (- 1) of
                 (None, L4) \<Rightarrow> Abort NullString
               | (Some msg, L4) \<Rightarrow> Done (msg, L4, w))
            else Done (''Unexpected lua_load_result: '' @ int2str lua_load_result, L3, w))
           (\<lambda>(error_message, L, w1).
              if error_message \<noteq> [] then Done (None, self\<lparr>in_lua := L\<rparr>, w1)
              else result_bind (fetch_metadata (self\<lparr>in_lua := L\<rparr>))
                     (\<lambda>(metadata, self1). Done (metadata, self1, w1))))"

section \<open>The execution stage: \<^verbatim>\<open>lua::executor\<close> (lua_interpreter.cpp)\<close>

record executor_impl =
  ex_lua :: lua_State
  ex_thread :: "lua_thread option"
  ex_sd :: pointer
  ex_nd :: pointer

text \<open>\<open>self_ptr\<close> is the address of the \<^verbatim>\<open>impl\<close> object (\<^verbatim>\<open>this\<close>).\<close>

definition register_globals :: "pointer \<Rightarrow> executor_impl \<Rightarrow> executor_impl" where
  "register_globals self_ptr self =
     (let L1 = lua_pushlightuserdata (ex_lua self) self_ptr;
          L2 = lua_setglobal L1 ''__executor__'';
          L3 = lua_pushlightuserdata L2 (ex_sd self);
          L4 = lua_setglobal L3 SD_LUA_VARIABLE;
          L5 = lua_pushlightuserdata L4 (ex_nd self);
          L6 = lua_setglobal L5 ND_LUA_VARIABLE
      in self\<lparr>ex_lua := L6\<rparr>)"

definition register_functions :: "executor_impl \<Rightarrow> executor_impl" where
  "register_functions self =
     (let L1 = lua_register (ex_lua self) ''mes'' C_mes;
          L2 = lua_register L1 ''next'' C_next;
          L3 = lua_register L2 ''close'' C_close
      in self\<lparr>ex_lua := L3\<rparr>)"

definition executor :: "pointer \<Rightarrow> pointer \<Rightarrow> pointer \<Rightarrow> executor_impl" where
  "executor self_ptr sd nd =
     register_globals self_ptr
       (register_functions
          \<lparr>ex_lua = luaL_openlibs luaL_newstate, ex_thread = None, ex_sd = sd, ex_nd = nd\<rparr>)"

definition resume :: "nat \<Rightarrow> executor_impl \<Rightarrow> world \<Rightarrow> (executor_impl \<times> world) result" where
  "resume fuel self w =
     (case ex_thread self of
        None \<Rightarrow> Abort NullThread
      | Some thread \<Rightarrow>
          (case lua_resume fuel thread 0 (globals (ex_lua self)) w of
             None \<Rightarrow> Timeout
           | Some (rc, thread1, g1, w1) \<Rightarrow>
               Done (self\<lparr>ex_lua := (ex_lua self)\<lparr>globals := g1\<rparr>, ex_thread := Some thread1\<rparr>,
                     w1)))"

definition run ::
  "nat \<Rightarrow> executor_impl \<Rightarrow> bytes \<Rightarrow> nat \<Rightarrow> world \<Rightarrow> (bool \<times> executor_impl \<times> world) result" where
  "run fuel self code sz w =
     (let (rc, L1) = luaL_loadbuffer (ex_lua self) code sz ''b'';
          (thread, L2) = lua_newthread L1;
          L3 = lua_pushvalue L2 (- 2);
          (L4, thread1) = lua_xmove L3 thread 1
      in result_bind (resume fuel (self\<lparr>ex_lua := L4, ex_thread := Some thread1\<rparr>) w)
           (\<lambda>(self1, w1). Done (True, self1, w1)))"

section \<open>Derived descriptions and sample data\<close>

text \<open>
  The value a function of the repository returns, without the states that go with it.
\<close>

definition returned :: "('a \<times> 'b) result \<Rightarrow> 'a result" where
  "returned r = result_bind r (\<lambda>p. Done (fst p))"

text \<open>The host state a function of the repository leaves behind.\<close>

definition final_world :: "('a \<times> 'b \<times> world) result \<Rightarrow> world result" where
  "final_world r = result_bind r (\<lambda>p. Done (snd (snd p)))"


text \<open>
  What \<open>lua_error_handler\<close> makes of an error object (lemma \<open>error_handler_call\<close>): a
  string or a number gets the traceback appended, \<open>LNil\<close> stays, anything else becomes a
  fixed message.
\<close>

definition handled_error :: "lua_value \<Rightarrow> lua_value" where
  "handled_error v =
     (case luaO_tostring v of
        Some s \<Rightarrow> LString (s @ [CHR 0x0A] @ ''stack traceback:'')
      | None \<Rightarrow> (case v of LNil \<Rightarrow> LNil | _ \<Rightarrow> LString ''(no error message)''))"

text \<open>
  What \<open>fetch_metadata\<close> stores as code for the value of the global \<^verbatim>\<open>script\<close> (lemma
  \<open>fetch_metadata_table\<close>): the dump of a Lua function, an empty byte string for a C
  function (\<^verbatim>\<open>lua_dump\<close> writes nothing), and no code for any other value.
\<close>

definition code_of :: "lua_value \<Rightarrow> bytecode option" where
  "code_of v =
     (case v of
        LFunction body \<Rightarrow> Some \<lparr>bc_bytes = [Precompiled body]\<rparr>
      | LCFunction f \<Rightarrow> Some \<lparr>bc_bytes = []\<rparr>
      | _ \<Rightarrow> None)"

text \<open>
  The dialogue of the spec's end-to-end scenario, under the names the executor registers:
  \<^verbatim>\<open>mes("Halt!") next() mes("Move along.") close()\<close>.
\<close>

definition guard_body :: "stmt list" where
  "guard_body =
     [SCall ''mes'' [EStr ''Halt!''], SCall ''next'' [],
      SCall ''mes'' [EStr ''Move along.''], SCall ''close'' []]"


text \<open>
  The scenario's script with the fields in the table it returns, all six of them set:
  \<^verbatim>\<open>function script() ... end
  return { name = "Guard", x = 150, y = 200, facing = f, sprite = s, map = m }\<close>.
\<close>

definition guard_table_script :: "lua_Integer \<Rightarrow> lua_Integer \<Rightarrow> string \<Rightarrow> stmt list" where
  "guard_table_script f s m =
     [SAssign ''script'' (EFunction guard_body),
      SReturn [ETable [(''name'', EStr ''Guard''), (''x'', EInt 150), (''y'', EInt 200),
                       (''facing'', EInt f), (''sprite'', EInt s), (''map'', EStr m)]]]"

text \<open>
  A script without dialogue:
  \<^verbatim>\<open>return { name = "Sign", x = 10, y = 20, facing = 4, sprite = 837, map = "prontera" }\<close>.
\<close>

definition sign_script :: "stmt list" where
  "sign_script =
     [SReturn [ETable [(''name'', EStr ''Sign''), (''x'', EInt 10), (''y'', EInt 20),
                       (''facing'', EInt 4), (''sprite'', EInt 837), (''map'', EStr ''prontera'')]]]"

text \<open>A host with nothing sent or logged yet, in which every NPC has block id 17.\<close>

definition quiet_world :: world where
  "quiet_world = \<lparr>packets = [], warnings = [], npc_heap = (\<lambda>p. \<lparr>bl_id = 17\<rparr>)\<rparr>"

section \<open>Properties of the compile stage\<close>

subsection \<open>Auxiliary facts: the steps of an extraction\<close>


lemma result_bind_simps [simp]:
  "result_bind (Done a) f = f a"
  "result_bind (Abort e) f = Abort e"
  "result_bind Timeout f = Timeout"
  by (simp_all add: result_bind_def)

lemma luaZ_fill_lua_reader:
  "luaZ_fill lua_reader \<lparr>rd_chunk = c, rd_read = False\<rparr> = c"
  by (simp add: luaZ_fill_def lua_reader_def)

lemma adjust_results_1:
  "adjust_results (Suc 0) rs = [case rs of [] \<Rightarrow> LNil | v # _ \<Rightarrow> v]"
  by (cases rs) (simp_all add: adjust_results_def)

lemma index2value_two:
  "stack L = [a, b] \<Longrightarrow> index2value L (- 1) = Some b"
  "stack L = [a, b] \<Longrightarrow> index2value L 1 = Some a"
  by (simp_all add: index2value_def index2slot_def)

lemma fetch_metadata_not_table:
  "stack (in_lua self) = [a, b] \<Longrightarrow> (\<forall>t. b \<noteq> LTable t) \<Longrightarrow> fetch_metadata self = Done (None, self)"
  by (cases b) (simp_all add: fetch_metadata_def lua_istable_def index2value_two)

lemma extract_rejected:
  assumes "luaD_protectedparser (case fs path of None \<Rightarrow> [] | Some c \<Rightarrow> c) (Some ''t'') = Rejected msg"
  shows "extract_metadata fuel fs self path w =
         Done (None, self\<lparr>in_lua := (in_lua self)\<lparr>stack := [LCFunction C_lua_error_handler, LString msg]\<rparr>\<rparr>, w)"
  using assms
  by (simp add: extract_metadata_def lua_load_def luaZ_fill_lua_reader lua_settop_def lua_pushcfunction_def
      lua_push_def LUA_OK_def LUA_ERRSYNTAX_def lua_tostring_def index2slot_def luaO_tostring_def result_bind_def
      fetch_metadata_not_table Let_def)

lemma error_handler_call:
  "luaD_call fuel False (LCFunction C_lua_error_handler) [v] g w = Some (Finished [handled_error v], g, w)"
  by (cases v)
     (simp_all add: luaD_call_def luaD_precallC_def lua_error_handler_def lua_tostring_def
       index2slot_def luaO_tostring_def luaL_traceback_def lua_push_def lua_isnoneornil_def
       index2value_def luaL_callmeta_def lua_pushliteral_def handled_error_def)

lemma luaD_call_LFunction:
  "luaD_call fuel y (LFunction body) args g w = luaV_execute fuel y [body] g w"
  by (simp add: luaD_call_def)

lemma pcall_chunk:
  assumes "stack L = [LCFunction C_lua_error_handler, LFunction body]"
  shows "lua_pcall fuel L 0 (Suc 0) 1 w =
    (case luaV_execute fuel False [body] (globals L) w of
       None \<Rightarrow> None
     | Some (Finished rs, g1, w1) \<Rightarrow>
         Some (LUA_OK, L\<lparr>stack := LCFunction C_lua_error_handler # adjust_results (Suc 0) rs, globals := g1\<rparr>, w1)
     | Some (Yielded ci, g1, w1) \<Rightarrow>
         Some (LUA_ERRRUN, L\<lparr>stack := [LCFunction C_lua_error_handler, LString ''attempt to yield across a C-call boundary''], globals := g1\<rparr>, w1)
     | Some (Raised v, g1, w1) \<Rightarrow>
         Some (LUA_ERRRUN, L\<lparr>stack := [LCFunction C_lua_error_handler, handled_error v], globals := g1\<rparr>, w1))"
  using assms
  by (simp add: lua_pcall_def Let_def index2value_two error_handler_call adjust_results_1
        luaD_call_LFunction split: option.split signal.split prod.split)

lemma extract_loaded:
  assumes "luaD_protectedparser (case fs path of None \<Rightarrow> [] | Some c \<Rightarrow> c) (Some ''t'') = Loaded body"
  shows "extract_metadata fuel fs self path w =
    (case luaV_execute fuel False [body] (globals (in_lua self)) w of
       None \<Rightarrow> Timeout
     | Some (Finished rs, g1, w1) \<Rightarrow>
         result_bind
           (fetch_metadata (self\<lparr>in_lua := (in_lua self)\<lparr>stack := LCFunction C_lua_error_handler # adjust_results (Suc 0) rs, globals := g1\<rparr>\<rparr>))
           (\<lambda>(metadata, self1). Done (metadata, self1, w1))
     | Some (Yielded ci, g1, w1) \<Rightarrow>
         Done (None, self\<lparr>in_lua := (in_lua self)\<lparr>stack := [LCFunction C_lua_error_handler, LString ''attempt to yield across a C-call boundary''], globals := g1\<rparr>\<rparr>, w1)
     | Some (Raised v, g1, w1) \<Rightarrow>
         Done (None, self\<lparr>in_lua := (in_lua self)\<lparr>stack := [LCFunction C_lua_error_handler, handled_error v], globals := g1\<rparr>\<rparr>, w1))"
proof -
  let ?L3 = "(in_lua self)\<lparr>stack := [LCFunction C_lua_error_handler, LFunction body]\<rparr>"
  have load: "lua_load (lua_pushcfunction (lua_settop (in_lua self) 0) C_lua_error_handler) lua_reader
          \<lparr>rd_chunk = (case fs path of None \<Rightarrow> [] | Some c \<Rightarrow> c), rd_read = False\<rparr> nm (Some ''t'')
        = (LUA_OK, ?L3)" for nm
    using assms
    by (simp add: lua_load_def luaZ_fill_lua_reader lua_settop_def lua_pushcfunction_def lua_push_def)
  have pc: "lua_pcall fuel ?L3 0 (Suc 0) 1 w = (case luaV_execute fuel False [body] (globals (in_lua self)) w of
       None \<Rightarrow> None
     | Some (Finished rs, g1, w1) \<Rightarrow>
         Some (LUA_OK, ?L3\<lparr>stack := LCFunction C_lua_error_handler # adjust_results (Suc 0) rs, globals := g1\<rparr>, w1)
     | Some (Yielded ci, g1, w1) \<Rightarrow>
         Some (LUA_ERRRUN, ?L3\<lparr>stack := [LCFunction C_lua_error_handler, LString ''attempt to yield across a C-call boundary''], globals := g1\<rparr>, w1)
     | Some (Raised v, g1, w1) \<Rightarrow>
         Some (LUA_ERRRUN, ?L3\<lparr>stack := [LCFunction C_lua_error_handler, handled_error v], globals := g1\<rparr>, w1))"
    using pcall_chunk [of ?L3 body fuel w] by simp
  have tb: "handled_error v \<noteq> LNil \<Longrightarrow> \<exists>s. handled_error v = LString s \<and> s \<noteq> []" for v
    by (cases v) (simp_all add: handled_error_def luaO_tostring_def)
  note unf = extract_metadata_def Let_def load pc
  note ev = LUA_OK_def LUA_ERRRUN_def lua_isnil_def index2value_two result_bind_def
    lua_tostring_def index2slot_def luaO_tostring_def
  show ?thesis
  proof (cases "luaV_execute fuel False [body] (globals (in_lua self)) w")
    case None
    then show ?thesis by (simp add: unf)
  next
    case (Some r)
    obtain sg g1 w1 where r: "r = (sg, g1, w1)" by (cases r)
    show ?thesis
    proof (cases sg)
      case (Finished rs)
      with Some r show ?thesis by (simp add: unf LUA_OK_def)
    next
      case (Yielded ci)
      with Some r show ?thesis by (simp add: unf ev)
    next
      case (Raised v)
      show ?thesis
      proof (cases "handled_error v = LNil")
        case True
        with Some r Raised show ?thesis 
          by (simp add: unf ev fetch_metadata_not_table)
      next
        case False
        from tb [OF False] obtain s where "handled_error v = LString s" "s \<noteq> []" by blast
        with Some r Raised show ?thesis by (simp add: unf ev)
      qed
    qed
  qed
qed

lemma index2value_three:
  "stack L = [a, b, c] \<Longrightarrow> index2value L (- 1) = Some c"
  by (simp add: index2value_def index2slot_def)

lemma lua_getfield_table:
  "stack L = [h, LTable t] \<Longrightarrow>
   lua_getfield L (- 1) k = Inr (L\<lparr>stack := [h, LTable t, table_get t k]\<rparr>)"
  by (simp add: lua_getfield_def index2value_two lua_push_def)

lemma fetch_number_number:
  assumes "stack (in_lua self) = [h, LTable t]" and "luaV_tointeger (table_get t k) = Some n"
  shows "fetch_number self k = Done (ucast n, self\<lparr>in_lua := (in_lua self)\<lparr>stack := [h, LTable t]\<rparr>\<rparr>)"
  using assms
  by (simp add: fetch_number_def lua_getfield_table lua_isnumber_def lua_tointeger_def
        index2value_three lua_pop_def lua_settop_def Let_def)

lemma fetch_number_other:
  assumes "stack (in_lua self) = [h, LTable t]" and "luaV_tointeger (table_get t k) = None"
  shows "fetch_number self k =
         Done (0, self\<lparr>in_lua := (in_lua self)\<lparr>stack := [h, LTable t, table_get t k]\<rparr>\<rparr>)"
  using assms
  by (simp add: fetch_number_def lua_getfield_table lua_isnumber_def index2value_three)

lemma fetch_string_string:
  assumes "stack (in_lua self) = [h, LTable t]" and "luaO_tostring (table_get t k) = Some s"
  shows "fetch_string self k = Done (s, self\<lparr>in_lua := (in_lua self)\<lparr>stack := [h, LTable t]\<rparr>\<rparr>)"
  using assms
  by (simp add: fetch_string_def lua_getfield_table lua_isstring_def lua_tostring_def
        index2value_three index2slot_def lua_pop_def lua_settop_def Let_def)

lemma fetch_string_other:
  assumes "stack (in_lua self) = [h, LTable t]" and "luaO_tostring (table_get t k) = None"
  shows "fetch_string self k =
         Done ([], self\<lparr>in_lua := (in_lua self)\<lparr>stack := [h, LTable t, table_get t k]\<rparr>\<rparr>)"
  using assms
  by (simp add: fetch_string_def lua_getfield_table lua_isstring_def index2value_three)

lemma fetch_number_nil:
  assumes "stack (in_lua self) = [h, t, LNil]"
  shows "fetch_number self k = Abort (Unprotected (LString ''attempt to index a nil value''))"
  using assms
  by (simp add: fetch_number_def lua_getfield_def index2value_three luaT_typename_def)

lemma fetch_metadata_table:
  assumes st: "stack (in_lua self) = [h, LTable t]"
    and x: "luaV_tointeger (table_get t ''x'') = Some nx"
    and y: "luaV_tointeger (table_get t ''y'') = Some ny"
    and f: "luaV_tointeger (table_get t ''facing'') = Some nf"
    and s: "luaV_tointeger (table_get t ''sprite'') = Some ns"
    and m: "luaO_tostring (table_get t ''map'') = Some mp"
  shows "fetch_metadata self =
     Done (Some \<lparr>md_path = [], md_map = mp, md_x = ucast nx, md_y = ucast ny, md_facing = ucast nf,
                  md_name = (case luaO_tostring (table_get t ''name'') of None \<Rightarrow> [] | Some nm \<Rightarrow> nm),
                  md_sprite = ucast ns, md_code = code_of (globals (in_lua self) ''script'')\<rparr>,
           self\<lparr>in_lua := (in_lua self)\<lparr>stack := [globals (in_lua self) ''script'']\<rparr>\<rparr>)"
proof -
  have tab: "lua_istable (in_lua self) (- 1)"
    using st by (simp add: lua_istable_def index2value_two)
  note num = fetch_number_number [where h = h and t = t]
  note str = fetch_string_string [where h = h and t = t]
  have tail: "lua_getglobal (lua_settop L 0) ''script'' = L\<lparr>stack := [globals L ''script'']\<rparr>" for L
    by (simp add: lua_getglobal_def lua_settop_def lua_push_def)
  have fin: "stack L = [v] \<Longrightarrow> lua_isfunction L (- 1) = (code_of v \<noteq> None)" for L v
    by (cases v) (simp_all add: lua_isfunction_def index2value_def index2slot_def code_of_def)
  have dump: "stack L = [v] \<Longrightarrow> code_of v \<noteq> None \<Longrightarrow>
      (case lua_dump L lua_writer \<lparr>wr_stream = [], wr_total_size = 0\<rparr> 1 of
         (rc, ws) \<Rightarrow> Some \<lparr>bc_bytes = take (wr_total_size ws) (wr_stream ws)\<rparr>) = code_of v" for L v
    by (cases v) (simp_all add: lua_dump_def index2value_def index2slot_def code_of_def lua_writer_def)
  show ?thesis
  proof (cases "luaO_tostring (table_get t ''name'')")
    case None
    show ?thesis
      using dump [of "(in_lua self)\<lparr>stack := [globals (in_lua self) ''script'']\<rparr>" "globals (in_lua self) ''script''"]
      by (auto simp add: fetch_metadata_def tab st num x y f s m str fetch_string_other [where h = h and t = t] None
          Let_def tail fin split: prod.splits)
  next
    case (Some nm)
    show ?thesis
      using dump [of "(in_lua self)\<lparr>stack := [globals (in_lua self) ''script'']\<rparr>" "globals (in_lua self) ''script''"]
      by (auto simp add: fetch_metadata_def tab st num x y f s m str Some
          Let_def tail fin split: prod.splits)
  qed
qed




lemma luaV_execute_numeral:
  "luaV_execute (numeral k) y [] g w = Some (Finished [], g, w)"
  "luaV_execute (numeral k) y ([] # ci) g w =
     (if ci = [] then Some (Finished [], g, w) else luaV_execute (pred_numeral k) y ci g w)"
  "luaV_execute (numeral k) y ((SReturn es # rest) # ci) g w =
     (if ci = [] then Some (Finished (map (luaV_eval g) es), g, w)
      else luaV_execute (pred_numeral k) y ci g w)"
  "luaV_execute (numeral k) y ((SAssign name e # rest) # ci) g w =
     luaV_execute (pred_numeral k) y (rest # ci) (g(name := luaV_eval g e)) w"
  "luaV_execute (numeral k) y ((SCall name args # rest) # ci) g w =
     (case g name of
        LFunction body \<Rightarrow> luaV_execute (pred_numeral k) y (body # rest # ci) g w
      | LCFunction f \<Rightarrow>
          (case luaD_precallC f \<lparr>stack = map (luaV_eval g) args, globals = g, yieldable = y\<rparr> w of
             (CReturn j, L, w1) \<Rightarrow> luaV_execute (pred_numeral k) y (rest # ci) (globals L) w1
           | (CYield j, L, w1) \<Rightarrow> Some (Yielded (rest # ci), globals L, w1)
           | (CError v, L, w1) \<Rightarrow> Some (Raised v, globals L, w1))
      | v \<Rightarrow>
          Some (Raised (LString (''attempt to call a '' @ luaT_typename (Some v) @ '' value'')),
                g, w))"
  "luaV_execute (numeral k) y ((SCallField tname key args # rest) # ci) g w =
     (case luaV_gettable (g tname) key of
        Inl e \<Rightarrow> Some (Raised e, g, w)
      | Inr (LFunction body) \<Rightarrow> luaV_execute (pred_numeral k) y (body # rest # ci) g w
      | Inr (LCFunction f) \<Rightarrow>
          (case luaD_precallC f \<lparr>stack = map (luaV_eval g) args, globals = g, yieldable = y\<rparr> w of
             (CReturn j, L, w1) \<Rightarrow> luaV_execute (pred_numeral k) y (rest # ci) (globals L) w1
           | (CYield j, L, w1) \<Rightarrow> Some (Yielded (rest # ci), globals L, w1)
           | (CError v, L, w1) \<Rightarrow> Some (Raised v, globals L, w1))
      | Inr v \<Rightarrow>
          Some (Raised (LString (''attempt to call a '' @ luaT_typename (Some v) @ '' value'')),
                g, w))"
  by (simp_all add: numeral_eq_Suc)

lemma mode_allows_simps [simp]:
  "mode_allows None c"
  "mode_allows (Some m) c = (c \<in> set m)"
  by (simp_all add: mode_allows_def)

lemma returned_simps [simp]:
  "returned (Done p) = Done (fst p)"
  "returned (Abort e) = Abort e"
  "returned Timeout = Timeout"
  by (simp_all add: returned_def)

lemma interpreter_state [simp]:
  "stack (in_lua interpreter) = []"
  "globals (in_lua interpreter) =
     (\<lambda>_. LNil)(''error'' := LCFunction C_luaB_error,
                  ''coroutine'' := LTable [(''yield'', LCFunction C_luaB_yield)])"
  "yieldable (in_lua interpreter) = False"
  by (simp_all add: interpreter_def luaL_openlibs_def luaL_newstate_def)

lemma extract_metadata_unfold:
  "extract_metadata fuel fs self path w =
    (case luaD_protectedparser (case fs path of None \<Rightarrow> [] | Some c \<Rightarrow> c) (Some ''t'') of
       Rejected msg \<Rightarrow>
         Done (None, self\<lparr>in_lua := (in_lua self)\<lparr>stack := [LCFunction C_lua_error_handler, LString msg]\<rparr>\<rparr>, w)
     | Loaded body \<Rightarrow>
        (case luaV_execute fuel False [body] (globals (in_lua self)) w of
           None \<Rightarrow> Timeout
         | Some (Finished rs, g1, w1) \<Rightarrow>
             result_bind
               (fetch_metadata (self\<lparr>in_lua := (in_lua self)\<lparr>stack := LCFunction C_lua_error_handler # adjust_results (Suc 0) rs, globals := g1\<rparr>\<rparr>))
               (\<lambda>(metadata, self1). Done (metadata, self1, w1))
         | Some (Yielded ci, g1, w1) \<Rightarrow>
             Done (None, self\<lparr>in_lua := (in_lua self)\<lparr>stack := [LCFunction C_lua_error_handler, LString ''attempt to yield across a C-call boundary''], globals := g1\<rparr>\<rparr>, w1)
         | Some (Raised v, g1, w1) \<Rightarrow>
             Done (None, self\<lparr>in_lua := (in_lua self)\<lparr>stack := [LCFunction C_lua_error_handler, handled_error v], globals := g1\<rparr>\<rparr>, w1)))"
proof (cases "luaD_protectedparser (case fs path of None \<Rightarrow> [] | Some c \<Rightarrow> c) (Some ''t'')")
  case (Loaded body)
  then show ?thesis using extract_loaded [of fs path body fuel self w] by simp
next
  case (Rejected msg)
  then show ?thesis using extract_rejected [of fs path msg fuel self w] by simp
qed

subsection \<open>Syntax errors\<close>

text \<open>
  Claim C6.  For every malformed script source, that is every file content that Lua's
  loader rejects in text mode with a syntax error, \<open>extract_metadata\<close> returns the absent
  result and never partial metadata, whatever the step bound, the interpreter's state and
  the host state are.  The VM is left with the error handler and the message on its
  stack, and the host is untouched.
\<close>

theorem syntax_error_yields_no_metadata:
  assumes "fs path = Some content"
    and "luaD_protectedparser content (Some ''t'') = Rejected msg"
  shows "extract_metadata fuel fs self path w =
         Done (None,
               self\<lparr>in_lua := (in_lua self)\<lparr>stack := [LCFunction C_lua_error_handler, LString msg]\<rparr>\<rparr>,
               w)"
  using assms by (simp add: extract_metadata_unfold)

theorem syntax_error_yields_no_metadata_witness:
  "luaD_protectedparser [Malformed ''npc/guard.lua:1: unexpected symbol near <eof>''] (Some ''t'')
     = Rejected ''npc/guard.lua:1: unexpected symbol near <eof>'' \<and>
   returned (extract_metadata 0
      [''npc/guard.lua'' \<mapsto> [Malformed ''npc/guard.lua:1: unexpected symbol near <eof>'']]
      interpreter ''npc/guard.lua'' quiet_world) = Done None"
  using syntax_error_yields_no_metadata
    [of "[''npc/guard.lua'' \<mapsto> [Malformed ''npc/guard.lua:1: unexpected symbol near <eof>'']]"
        "''npc/guard.lua''" "[Malformed ''npc/guard.lua:1: unexpected symbol near <eof>'']"
        "''npc/guard.lua:1: unexpected symbol near <eof>''" 0 interpreter quiet_world]
  by simp

subsection \<open>Unreadable files\<close>

text \<open>
  Claim C9, as stated, fails: \<open>extract_metadata\<close> returns a pointer to the metadata or
  null, and a file that cannot be read gives the same null as a file with a syntax error.
  There is no error kind that tells the two apart.
\<close>

theorem unreadable_file_counterexample:
  "returned (extract_metadata 10 Map.empty interpreter ''npc/guard.lua'' quiet_world) = Done None \<and>
   returned (extract_metadata 10
      [''npc/guard.lua'' \<mapsto> [Malformed ''npc/guard.lua:1: unexpected symbol near <eof>'']]
      interpreter ''npc/guard.lua'' quiet_world) = Done None"
  by (simp add: extract_metadata_unfold luaV_execute_numeral adjust_results_1
      fetch_metadata_not_table)

text \<open>
  Claim C9, amended.  If the file at \<open>path\<close> cannot be read, the source text is taken to be
  empty; the empty chunk runs and returns no table, and \<open>extract_metadata\<close> returns the
  absent result, the same value it returns when the file holds a syntax error.
\<close>

theorem unreadable_file_yields_no_metadata:
  assumes "fs path = None" and "0 < fuel"
  shows "extract_metadata fuel fs self path w =
         Done (None,
               self\<lparr>in_lua := (in_lua self)\<lparr>stack := [LCFunction C_lua_error_handler, LNil]\<rparr>\<rparr>, w)
       \<and> returned (extract_metadata fuel fs self path w) =
         returned (extract_metadata fuel (fs(path \<mapsto> [Malformed msg])) self path w)"
proof -
  obtain n where n: "fuel = Suc n" using assms(2) by (cases fuel) auto
  have "extract_metadata fuel fs self path w =
         Done (None,
               self\<lparr>in_lua := (in_lua self)\<lparr>stack := [LCFunction C_lua_error_handler, LNil]\<rparr>\<rparr>, w)"
    using assms(1) by (simp add: extract_metadata_unfold n adjust_results_1 fetch_metadata_not_table)
  then show ?thesis by (simp add: extract_metadata_unfold)
qed

theorem unreadable_file_yields_no_metadata_witness:
  "Map.empty ''npc/guard.lua'' = (None :: bytes option) \<and> (0::nat) < 1 \<and>
   returned (extract_metadata 1 Map.empty interpreter ''npc/guard.lua'' quiet_world) = Done None"
  using unreadable_file_yields_no_metadata [of Map.empty "''npc/guard.lua''" 1 interpreter quiet_world]
  by simp


subsection \<open>Fields that the script does not set\<close>

text \<open>
  Claim C2 at a failing input.  The script is
  \<^verbatim>\<open>return { name = "Guard", x = 150, y = 200 }\<close>: it returns a table and leaves \<^verbatim>\<open>facing\<close>,
  \<^verbatim>\<open>sprite\<close> and \<^verbatim>\<open>map\<close> unset.  \<open>fetch_number\<close> returns 0 for \<^verbatim>\<open>facing\<close> but leaves the
  \<open>LNil\<close> it pushed on the stack, so the next \<^verbatim>\<open>lua_getfield\<close> indexes that \<open>LNil\<close>
  instead of the table.  Lua raises an error outside any protected call and the process
  stops; no metadata with defaults is returned.
\<close>
theorem unset_field_aborts_extraction:
  "extract_metadata 10
     [''npc/guard.lua'' \<mapsto>
        [Source [SReturn [ETable [(''name'', EStr ''Guard''), (''x'', EInt 150), (''y'', EInt 200)]]]]]
     interpreter ''npc/guard.lua'' quiet_world
   = Abort (Unprotected (LString ''attempt to index a nil value''))"
proof -
  let ?t = "[(''y'', LInteger 200), (''x'', LInteger 150), (''name'', LString ''Guard'')]"
  let ?h = "LCFunction C_lua_error_handler"
  have fm: "stack (in_lua self) = [?h, LTable ?t] \<Longrightarrow> fetch_metadata self
      = Abort (Unprotected (LString ''attempt to index a nil value''))" for self :: interpreter_impl
    by (simp add: fetch_metadata_def lua_istable_def index2value_two
        fetch_number_number [where h = ?h and t = ?t]
        fetch_number_other [where h = ?h and t = ?t]
        fetch_number_nil [where h = ?h and t = "LTable ?t"]
        table_get_def luaV_tointeger_def)
  show ?thesis
    by (simp add: extract_metadata_unfold luaV_execute_numeral adjust_results_1 table_set_def fm)
qed

subsection \<open>Scripts that return no table\<close>



text \<open>
  Claim C10.  \<open>extract_metadata\<close> returns metadata only when the script was loaded, its
  top level ran to the end without error, and the one result that \<^verbatim>\<open>lua_pcall\<close> keeps
  (the first returned value, \<open>LNil\<close> when nothing is returned) is a table.  And whenever
  the top level runs to the end but that result is not a table, the result is absent,
  although nothing failed.
\<close>
theorem metadata_only_from_returned_table:
  "(returned (extract_metadata fuel fs self path w) = Done (Some md) \<longrightarrow>
      (\<exists>body rs g1 w1 t.
          luaD_protectedparser (case fs path of None \<Rightarrow> [] | Some c \<Rightarrow> c) (Some ''t'') = Loaded body \<and>
          luaV_execute fuel False [body] (globals (in_lua self)) w = Some (Finished rs, g1, w1) \<and>
          adjust_results 1 rs = [LTable t]))
   \<and>
   (luaD_protectedparser (case fs path of None \<Rightarrow> [] | Some c \<Rightarrow> c) (Some ''t'') = Loaded body \<longrightarrow>
    luaV_execute fuel False [body] (globals (in_lua self)) w = Some (Finished rs, g1, w1) \<longrightarrow>
    (\<forall>t. adjust_results 1 rs \<noteq> [LTable t]) \<longrightarrow>
      extract_metadata fuel fs self path w =
        Done (None,
              self\<lparr>in_lua := (in_lua self)\<lparr>stack := LCFunction C_lua_error_handler # adjust_results 1 rs,
                                             globals := g1\<rparr>\<rparr>,
              w1))"
proof (intro conjI impI)
  assume some: "returned (extract_metadata fuel fs self path w) = Done (Some md)"
  show "\<exists>body rs g1 w1 t.
          luaD_protectedparser (case fs path of None \<Rightarrow> [] | Some c \<Rightarrow> c) (Some ''t'') = Loaded body \<and>
          luaV_execute fuel False [body] (globals (in_lua self)) w = Some (Finished rs, g1, w1) \<and>
          adjust_results 1 rs = [LTable t]"
  proof (cases "luaD_protectedparser (case fs path of None \<Rightarrow> [] | Some c \<Rightarrow> c) (Some ''t'')")
    case (Rejected msg)
    with some show ?thesis by (simp add: extract_metadata_unfold)
  next
    case (Loaded body)
    show ?thesis
    proof (cases "luaV_execute fuel False [body] (globals (in_lua self)) w")
      case None
      with some Loaded show ?thesis by (simp add: extract_metadata_unfold)
    next
      case (Some r)
      obtain sg g1 w1 where r: "r = (sg, g1, w1)" by (cases r)
      show ?thesis
      proof (cases sg)
        case (Finished rs)
        show ?thesis
        proof (cases "\<exists>t. adjust_results 1 rs = [LTable t]")
          case True
          with Loaded Some r Finished show ?thesis by auto
        next
          case False
          then have "\<forall>t. (case rs of [] \<Rightarrow> LNil | v # _ \<Rightarrow> v) \<noteq> LTable t"
            by (simp add: adjust_results_1)
          with some Loaded Some r Finished show ?thesis
            by (simp add: extract_metadata_unfold adjust_results_1 fetch_metadata_not_table)
        qed
      next
        case (Yielded ci)
        with some Loaded Some r show ?thesis by (simp add: extract_metadata_unfold)
      next
        case (Raised v)
        with some Loaded Some r show ?thesis by (simp add: extract_metadata_unfold)
      qed
    qed
  qed
next
  assume "luaD_protectedparser (case fs path of None \<Rightarrow> [] | Some c \<Rightarrow> c) (Some ''t'') = Loaded body"
    and "luaV_execute fuel False [body] (globals (in_lua self)) w = Some (Finished rs, g1, w1)"
    and "\<forall>t. adjust_results 1 rs \<noteq> [LTable t]"
  then show "extract_metadata fuel fs self path w =
        Done (None,
              self\<lparr>in_lua := (in_lua self)\<lparr>stack := LCFunction C_lua_error_handler # adjust_results 1 rs,
                                             globals := g1\<rparr>\<rparr>,
              w1)"
    by (simp add: extract_metadata_unfold adjust_results_1 fetch_metadata_not_table)
qed


text \<open>
  What the extraction of the guard's script with all six fields gives, on any interpreter.
\<close>

lemma guard_table_extraction:
  assumes "fs path = Some [Source (guard_table_script f s m)]" and "2 \<le> fuel"
  shows "extract_metadata fuel fs self path w =
     Done (Some \<lparr>md_path = [], md_map = m, md_x = 150, md_y = 200, md_facing = ucast f,
                  md_name = ''Guard'', md_sprite = ucast s,
                  md_code = Some \<lparr>bc_bytes = [Precompiled guard_body]\<rparr>\<rparr>,
           self\<lparr>in_lua := (in_lua self)\<lparr>stack := [LFunction guard_body],
                     globals := (globals (in_lua self))(''script'' := LFunction guard_body)\<rparr>\<rparr>,
           w)"
proof -
  let ?t = "[(''map'', LString m), (''sprite'', LInteger s), (''facing'', LInteger f),
             (''y'', LInteger 200), (''x'', LInteger 150), (''name'', LString ''Guard'')]"
  have fm: "stack (in_lua a) = [LCFunction C_lua_error_handler, LTable ?t] \<Longrightarrow>
     fetch_metadata a =
     Done (Some \<lparr>md_path = [], md_map = m, md_x = 150, md_y = 200, md_facing = ucast f,
                  md_name = ''Guard'', md_sprite = ucast s,
                  md_code = code_of (globals (in_lua a) ''script'')\<rparr>,
           a\<lparr>in_lua := (in_lua a)\<lparr>stack := [globals (in_lua a) ''script'']\<rparr>\<rparr>)" for a
    using fetch_metadata_table [of a "LCFunction C_lua_error_handler" ?t 150 200 f s m]
    by (simp add: table_get_def luaV_tointeger_def luaO_tostring_def)
  obtain n where n: "fuel = Suc (Suc n)"
    using assms(2) less_imp_Suc_add [of 1 fuel] by auto
  show ?thesis
    using assms(1)
    by (simp add: n extract_metadata_unfold guard_table_script_def adjust_results_1 table_set_def fm
        code_of_def)
qed

theorem metadata_only_from_returned_table_witness:
  "returned (extract_metadata 2 [''npc/guard.lua'' \<mapsto> [Source (guard_table_script 4 111 ''prontera'')]]
      interpreter ''npc/guard.lua'' quiet_world)
     = Done (Some \<lparr>md_path = [], md_map = ''prontera'', md_x = 150, md_y = 200, md_facing = 4,
                     md_name = ''Guard'', md_sprite = 111,
                     md_code = Some \<lparr>bc_bytes = [Precompiled guard_body]\<rparr>\<rparr>) \<and>
   (\<exists>body rs g1 w1 t.
       luaD_protectedparser [Source (guard_table_script 4 111 ''prontera'')] (Some ''t'') = Loaded body \<and>
       luaV_execute 2 False [body] (globals (in_lua interpreter)) quiet_world = Some (Finished rs, g1, w1) \<and>
       adjust_results 1 rs = [LTable t])"
proof -
  have ex: "returned (extract_metadata 2 [''npc/guard.lua'' \<mapsto> [Source (guard_table_script 4 111 ''prontera'')]]
      interpreter ''npc/guard.lua'' quiet_world)
     = Done (Some \<lparr>md_path = [], md_map = ''prontera'', md_x = 150, md_y = 200, md_facing = 4,
                     md_name = ''Guard'', md_sprite = 111,
                     md_code = Some \<lparr>bc_bytes = [Precompiled guard_body]\<rparr>\<rparr>)"
    using guard_table_extraction
      [of "[''npc/guard.lua'' \<mapsto> [Source (guard_table_script 4 111 ''prontera'')]]" "''npc/guard.lua''"
          4 111 "''prontera''" 2 interpreter quiet_world]
    by simp
  from metadata_only_from_returned_table
    [of 2 "[''npc/guard.lua'' \<mapsto> [Source (guard_table_script 4 111 ''prontera'')]]" interpreter
        "''npc/guard.lua''" quiet_world, THEN conjunct1, rule_format, OF ex]
  show ?thesis using ex by simp
qed






text \<open>
  What the extraction of the sign's script gives: its code is whatever the global
  \<^verbatim>\<open>script\<close> of the VM holds.
\<close>

lemma sign_extraction:
  assumes "fs path = Some [Source sign_script]" and "1 \<le> fuel"
  shows "extract_metadata fuel fs self path w =
     Done (Some \<lparr>md_path = [], md_map = ''prontera'', md_x = 10, md_y = 20, md_facing = 4,
                  md_name = ''Sign'', md_sprite = 837,
                  md_code = code_of (globals (in_lua self) ''script'')\<rparr>,
           self\<lparr>in_lua := (in_lua self)\<lparr>stack := [globals (in_lua self) ''script'']\<rparr>\<rparr>,
           w)"
proof -
  let ?t = "[(''map'', LString ''prontera''), (''sprite'', LInteger 837), (''facing'', LInteger 4),
             (''y'', LInteger 20), (''x'', LInteger 10), (''name'', LString ''Sign'')]"
  have fm: "stack (in_lua a) = [LCFunction C_lua_error_handler, LTable ?t] \<Longrightarrow>
     fetch_metadata a =
     Done (Some \<lparr>md_path = [], md_map = ''prontera'', md_x = 10, md_y = 20, md_facing = 4,
                  md_name = ''Sign'', md_sprite = 837,
                  md_code = code_of (globals (in_lua a) ''script'')\<rparr>,
           a\<lparr>in_lua := (in_lua a)\<lparr>stack := [globals (in_lua a) ''script'']\<rparr>\<rparr>)" for a
    using fetch_metadata_table [of a "LCFunction C_lua_error_handler" ?t 10 20 4 837 "''prontera''"]
    by (simp add: table_get_def luaV_tointeger_def luaO_tostring_def)
  obtain n where n: "fuel = Suc n"
    using assms(2) by (cases fuel) auto
  show ?thesis
    using assms(1)
    by (simp add: n extract_metadata_unfold sign_script_def adjust_results_1 table_set_def fm)
qed

subsection \<open>One VM for all extractions of an interpreter\<close>

text \<open>
  Claim C3 at a failing input.  One interpreter extracts \<^verbatim>\<open>npc/guard.lua\<close>, which defines
  the global function \<^verbatim>\<open>script\<close>, and then \<^verbatim>\<open>npc/sign.lua\<close>, which defines none.  The
  interpreter creates its VM once, in its constructor, and \<open>extract_metadata\<close> only clears
  the stack, so the second call still finds the guard's \<^verbatim>\<open>script\<close> among the globals and
  returns the guard's program as the sign's code.  On a freshly constructed interpreter
  the same file gets no code: the second result is not that of an isolated VM.
\<close>

theorem second_extraction_sees_first_script:
  "extract_metadata 10
      [''npc/guard.lua'' \<mapsto> [Source (guard_table_script 4 111 ''prontera'')],
       ''npc/sign.lua'' \<mapsto> [Source sign_script]]
      interpreter ''npc/guard.lua'' quiet_world
   = Done (Some \<lparr>md_path = [], md_map = ''prontera'', md_x = 150, md_y = 200, md_facing = 4,
                   md_name = ''Guard'', md_sprite = 111,
                   md_code = Some \<lparr>bc_bytes = [Precompiled guard_body]\<rparr>\<rparr>,
           interpreter\<lparr>in_lua := (in_lua interpreter)\<lparr>stack := [LFunction guard_body],
                globals := (globals (in_lua interpreter))(''script'' := LFunction guard_body)\<rparr>\<rparr>,
           quiet_world) \<and>
   returned (extract_metadata 10
      [''npc/guard.lua'' \<mapsto> [Source (guard_table_script 4 111 ''prontera'')],
       ''npc/sign.lua'' \<mapsto> [Source sign_script]]
      (interpreter\<lparr>in_lua := (in_lua interpreter)\<lparr>stack := [LFunction guard_body],
                globals := (globals (in_lua interpreter))(''script'' := LFunction guard_body)\<rparr>\<rparr>)
      ''npc/sign.lua'' quiet_world)
   = Done (Some \<lparr>md_path = [], md_map = ''prontera'', md_x = 10, md_y = 20, md_facing = 4,
                   md_name = ''Sign'', md_sprite = 837,
                   md_code = Some \<lparr>bc_bytes = [Precompiled guard_body]\<rparr>\<rparr>) \<and>
   returned (extract_metadata 10
      [''npc/guard.lua'' \<mapsto> [Source (guard_table_script 4 111 ''prontera'')],
       ''npc/sign.lua'' \<mapsto> [Source sign_script]]
      interpreter ''npc/sign.lua'' quiet_world)
   = Done (Some \<lparr>md_path = [], md_map = ''prontera'', md_x = 10, md_y = 20, md_facing = 4,
                   md_name = ''Sign'', md_sprite = 837, md_code = None\<rparr>)"
  by (simp add: guard_table_extraction sign_extraction code_of_def)

text \<open>
  What a call does clear is the stack: interpreters that agree on their globals give the
  same result, whatever earlier calls left on their stacks.
\<close>

lemma extract_metadata_ignores_stack:
  assumes "globals (in_lua a) = globals (in_lua b)"
    and "yieldable (in_lua a) = yieldable (in_lua b)"
  shows "extract_metadata fuel fs a path w = extract_metadata fuel fs b path w"
proof -
  obtain sa g y where a: "a = \<lparr>in_lua = \<lparr>stack = sa, globals = g, yieldable = y\<rparr>\<rparr>"
    by (cases a; cases "in_lua a") simp
  obtain sb where b: "b = \<lparr>in_lua = \<lparr>stack = sb, globals = g, yieldable = y\<rparr>\<rparr>"
    using assms unfolding a by (cases b; cases "in_lua b") simp
  show ?thesis
    unfolding a b
    by (simp add: extract_metadata_unfold
          split: load_result.split option.split signal.split prod.split)
qed

section \<open>Properties of the bridge and the execution stage\<close>

subsection \<open>Auxiliary facts: bridge calls, \<open>run\<close> and \<open>resume\<close>\<close>


lemma extract_user_data_eval:
  "extract_user_data L name = (case globals L name of LLightUserdata p \<Rightarrow> p | _ \<Rightarrow> 0, L)"
  by (cases "globals L name")
     (simp_all add: extract_user_data_def lua_getglobal_def lua_push_def lua_islightuserdata_def
        index2value_def index2slot_def lua_touserdata_def lua_pop_def lua_settop_def Let_def)

lemma script_context_ctor_eval:
  "script_context_ctor L =
     (\<lparr>sc_sd = (case globals L SD_LUA_VARIABLE of LLightUserdata p \<Rightarrow> p | _ \<Rightarrow> 0),
       sc_nd = (case globals L ND_LUA_VARIABLE of LLightUserdata p \<Rightarrow> p | _ \<Rightarrow> 0),
       sc_args = int (length (stack L))\<rparr>, L)"
  by (simp add: script_context_ctor_def extract_session_data_def extract_npc_data_def
        extract_user_data_eval lua_gettop_def)

lemma bridge_valid:
  assumes "globals L SD_LUA_VARIABLE = LLightUserdata sd" and "globals L ND_LUA_VARIABLE = LLightUserdata nd"
    and "sd \<noteq> 0" and "nd \<noteq> 0"
  shows "stack L = LString m # args \<Longrightarrow>
           lua_bridge_mes L w = (CReturn 0, L, clif_scriptmes sd (bl_id (npc_heap w nd)) (Some m) w)"
    and "lua_bridge_next L w = (lua_yield L 0, L, clif_scriptnext sd (bl_id (npc_heap w nd)) w)"
    and "lua_bridge_close L w = (CReturn 0, L, clif_scriptclose sd (bl_id (npc_heap w nd)) w)"
  using assms
  by (simp_all add: lua_bridge_mes_def lua_bridge_next_def lua_bridge_close_def
        script_context_ctor_eval is_valid_def lua_isstring_def lua_tostring_def index2value_def
        index2slot_def luaO_tostring_def Let_def)

lemma bridge_invalid:
  assumes "(case globals L SD_LUA_VARIABLE of LLightUserdata p \<Rightarrow> p | _ \<Rightarrow> 0) = 0 \<or>
           (case globals L ND_LUA_VARIABLE of LLightUserdata p \<Rightarrow> p | _ \<Rightarrow> 0) = 0"
  shows "lua_bridge_mes L w =
           (CReturn 0, L, ShowWarning (''[lua::mes]: Trying to call with no proper context.'' @ [CHR 0x0A]) w)"
    and "lua_bridge_next L w = (CReturn 0, L, w)"
    and "lua_bridge_close L w = (CReturn 0, L, w)"
  using assms
  by (auto simp add: lua_bridge_mes_def lua_bridge_next_def lua_bridge_close_def
        script_context_ctor_eval is_valid_def Let_def)






lemma executor_state:
  "stack (ex_lua (executor p sd nd)) = []"
  "globals (ex_lua (executor p sd nd)) =
     (\<lambda>_. LNil)(''error'' := LCFunction C_luaB_error,
                  ''coroutine'' := LTable [(''yield'', LCFunction C_luaB_yield)],
                  ''mes'' := LCFunction C_mes,
                  ''next'' := LCFunction C_next, ''close'' := LCFunction C_close,
                  ''__executor__'' := LLightUserdata p,
                  ''__map_session_data__'' := LLightUserdata sd,
                  ''__npc_data__'' := LLightUserdata nd)"
  "ex_thread (executor p sd nd) = None"
  "ex_sd (executor p sd nd) = sd"
  "ex_nd (executor p sd nd) = nd"
  by (simp_all add: executor_def register_globals_def register_functions_def lua_register_def
        lua_setglobal_def lua_pushcfunction_def lua_pushlightuserdata_def lua_push_def
        index2value_def index2slot_def lua_pop_def lua_settop_def luaL_openlibs_def
        luaL_newstate_def SD_LUA_VARIABLE_def ND_LUA_VARIABLE_def Let_def)

lemma status_distinct [simp]:
  "LUA_YIELD \<noteq> LUA_OK" "LUA_OK \<noteq> LUA_YIELD" "LUA_ERRRUN \<noteq> LUA_OK" "LUA_ERRRUN \<noteq> LUA_YIELD"
  "LUA_OK \<noteq> LUA_ERRRUN" "LUA_YIELD \<noteq> LUA_ERRRUN"
  by (simp_all add: LUA_OK_def LUA_YIELD_def LUA_ERRRUN_def)


lemma lua_resume_fresh:
  "lua_resume fuel \<lparr>th_stack = [v], th_ci = [], th_status = LUA_OK\<rparr> 0 g w =
    (case luaD_call fuel True v [] g w of
       None \<Rightarrow> None
     | Some (Finished rs, g1, w1) \<Rightarrow>
         Some (LUA_OK, \<lparr>th_stack = rs, th_ci = [], th_status = LUA_OK\<rparr>, g1, w1)
     | Some (Yielded ci, g1, w1) \<Rightarrow>
         Some (LUA_YIELD, \<lparr>th_stack = [], th_ci = ci, th_status = LUA_YIELD\<rparr>, g1, w1)
     | Some (Raised e, g1, w1) \<Rightarrow>
         Some (LUA_ERRRUN, \<lparr>th_stack = [v, e], th_ci = [], th_status = LUA_ERRRUN\<rparr>, g1, w1))"
  by (simp add: lua_resume_def Let_def split: option.split signal.split prod.split)

lemma run_prelude:
  "lua_newthread L = (\<lparr>th_stack = [], th_ci = [], th_status = LUA_OK\<rparr>, L\<lparr>stack := stack L @ [LThread]\<rparr>)"
  "lua_pushvalue (L\<lparr>stack := st @ [v, LThread]\<rparr>) (- 2) = L\<lparr>stack := st @ [v, LThread, v]\<rparr>"
  "lua_xmove (L\<lparr>stack := st @ [v, LThread, v]\<rparr>) \<lparr>th_stack = [], th_ci = [], th_status = LUA_OK\<rparr> (Suc 0)
      = (L\<lparr>stack := st @ [v, LThread]\<rparr>, \<lparr>th_stack = [v], th_ci = [], th_status = LUA_OK\<rparr>)"
  by (simp_all add: lua_newthread_def lua_pushvalue_def index2value_def index2slot_def lua_push_def
        nth_append lua_xmove_def Let_def)

lemma run_unfold:
  "run fuel self code sz w =
    (case luaD_protectedparser (take sz code) None of
       Loaded body \<Rightarrow>
        (case luaV_execute fuel True [body] (globals (ex_lua self)) w of
           None \<Rightarrow> Timeout
         | Some (Finished rs, g1, w1) \<Rightarrow>
             Done (True,
                   self\<lparr>ex_lua := (ex_lua self)\<lparr>stack := stack (ex_lua self) @ [LFunction body, LThread],
                                                 globals := g1\<rparr>,
                        ex_thread := Some \<lparr>th_stack = rs, th_ci = [], th_status = LUA_OK\<rparr>\<rparr>, w1)
         | Some (Yielded ci, g1, w1) \<Rightarrow>
             Done (True,
                   self\<lparr>ex_lua := (ex_lua self)\<lparr>stack := stack (ex_lua self) @ [LFunction body, LThread],
                                                 globals := g1\<rparr>,
                        ex_thread := Some \<lparr>th_stack = [], th_ci = ci, th_status = LUA_YIELD\<rparr>\<rparr>, w1)
         | Some (Raised v, g1, w1) \<Rightarrow>
             Done (True,
                   self\<lparr>ex_lua := (ex_lua self)\<lparr>stack := stack (ex_lua self) @ [LFunction body, LThread],
                                                 globals := g1\<rparr>,
                        ex_thread := Some \<lparr>th_stack = [LFunction body, v], th_ci = [],
                                           th_status = LUA_ERRRUN\<rparr>\<rparr>, w1))
     | Rejected msg \<Rightarrow>
         Done (True,
               self\<lparr>ex_lua := (ex_lua self)\<lparr>stack := stack (ex_lua self) @ [LString msg, LThread]\<rparr>,
                    ex_thread := Some \<lparr>th_stack = [LString msg, LString ''attempt to call a string value''],
                                       th_ci = [], th_status = LUA_ERRRUN\<rparr>\<rparr>, w))"
proof (cases "luaD_protectedparser (take sz code) None")
  case (Loaded body)
  then have lb: "luaL_loadbuffer (ex_lua self) code sz nm =
      (LUA_OK, (ex_lua self)\<lparr>stack := stack (ex_lua self) @ [LFunction body]\<rparr>)" for nm
    by (simp add: luaL_loadbuffer_def luaL_loadbufferx_def lua_push_def)
  show ?thesis
    by (simp add: run_def lb run_prelude resume_def lua_resume_fresh luaD_call_def Loaded
          split: option.split signal.split prod.split)
next
  case (Rejected msg)
  then have lb: "luaL_loadbuffer (ex_lua self) code sz nm =
      (LUA_ERRSYNTAX, (ex_lua self)\<lparr>stack := stack (ex_lua self) @ [LString msg]\<rparr>)" for nm
    by (simp add: luaL_loadbuffer_def luaL_loadbufferx_def lua_push_def)
  show ?thesis
    by (simp add: run_def lb run_prelude resume_def lua_resume_fresh luaD_call_def Rejected
          luaT_typename_def)
qed




lemma clif_frame [simp]:
  "npc_heap (clif_scriptmes s i m w) = npc_heap w"
  "npc_heap (clif_scriptnext s i w) = npc_heap w"
  "npc_heap (clif_scriptclose s i w) = npc_heap w"
  "warnings (clif_scriptmes s i m w) = warnings w"
  "warnings (clif_scriptnext s i w) = warnings w"
  "warnings (clif_scriptclose s i w) = warnings w"
  "packets (clif_scriptmes s i m w) = packets w @ [ScriptMes s i m]"
  "packets (clif_scriptnext s i w) = packets w @ [ScriptNext s i]"
  "packets (clif_scriptclose s i w) = packets w @ [ScriptClose s i]"
  by (simp_all add: clif_scriptmes_def clif_scriptnext_def clif_scriptclose_def)






lemma final_world_simps [simp]:
  "final_world (Done p) = Done (snd (snd p))"
  "final_world (Abort e) = Abort e"
  "final_world Timeout = Timeout"
  by (simp_all add: final_world_def)






lemma quiet_world_simps:
  "packets quiet_world = []" "warnings quiet_world = []" "npc_heap quiet_world p = \<lparr>bl_id = 17\<rparr>"
  by (simp_all add: quiet_world_def)

lemma executor_context:
  "globals (ex_lua (executor p sd nd)) SD_LUA_VARIABLE = LLightUserdata sd"
  "globals (ex_lua (executor p sd nd)) ND_LUA_VARIABLE = LLightUserdata nd"
  "globals (ex_lua (executor p sd nd)) ''mes'' = LCFunction C_mes"
  "globals (ex_lua (executor p sd nd)) ''next'' = LCFunction C_next"
  "globals (ex_lua (executor p sd nd)) ''close'' = LCFunction C_close"
  "globals (ex_lua (executor p sd nd)) ''coroutine'' = LTable [(''yield'', LCFunction C_luaB_yield)]"
  by (simp_all add: executor_state SD_LUA_VARIABLE_def ND_LUA_VARIABLE_def)


subsection \<open>Where a task suspends\<close>






subsection \<open>The end-to-end scenario\<close>






subsection \<open>Validation failures of the bridge functions\<close>

lemma mes_bad_arguments:
  assumes "globals L SD_LUA_VARIABLE = LLightUserdata sd" and "globals L ND_LUA_VARIABLE = LLightUserdata nd"
    and "sd \<noteq> 0" and "nd \<noteq> 0"
  shows "stack L = [] \<Longrightarrow>
           lua_bridge_mes L w =
             (CReturn 0, L, ShowWarning (''[lua::mes]: Trying to call with no parameters.'' @ [CHR 0x0A]) w)"
    and "stack L = v # args \<Longrightarrow> luaO_tostring v = None \<Longrightarrow>
           lua_bridge_mes L w =
             (CReturn 0, L, ShowWarning (''[lua::mes]: First parameter must be a string.'' @ [CHR 0x0A]) w)"
  using assms
  by (simp_all add: lua_bridge_mes_def script_context_ctor_eval is_valid_def lua_isstring_def
        index2value_def index2slot_def Let_def)

text \<open>
  Claim C4 at a failing input.  The executor is created with a null session pointer, so
  no bridge call has a valid context.  The script is \<^verbatim>\<open>next() close() mes("Halt!")\<close>.  All
  three calls return to the script without sending anything and without raising an error,
  but only \<^verbatim>\<open>mes\<close> logs a warning: \<open>lua_bridge_next\<close> and \<open>lua_bridge_close\<close> leave the
  log as it was.
\<close>
theorem next_and_close_fail_silently:
  "final_world (run 10 (executor 12288 0 8192)
      [Precompiled [SCall ''next'' [], SCall ''close'' [], SCall ''mes'' [EStr ''Halt!'']]] 1 quiet_world)
   = Done (quiet_world\<lparr>warnings :=
             [''[lua::mes]: Trying to call with no proper context.'' @ [CHR 0x0A]]\<rparr>) \<and>
   lua_bridge_next \<lparr>stack = [], globals = globals (ex_lua (executor 12288 0 8192)), yieldable = True\<rparr>
      quiet_world
   = (CReturn 0, \<lparr>stack = [], globals = globals (ex_lua (executor 12288 0 8192)), yieldable = True\<rparr>,
      quiet_world) \<and>
   lua_bridge_close \<lparr>stack = [], globals = globals (ex_lua (executor 12288 0 8192)), yieldable = True\<rparr>
      quiet_world
   = (CReturn 0, \<lparr>stack = [], globals = globals (ex_lua (executor 12288 0 8192)), yieldable = True\<rparr>,
      quiet_world)"
proof -
  let ?g = "globals (ex_lua (executor 12288 0 8192))"
  have inv: "(case globals L SD_LUA_VARIABLE of LLightUserdata p \<Rightarrow> p | _ \<Rightarrow> 0) = 0 \<or>
             (case globals L ND_LUA_VARIABLE of LLightUserdata p \<Rightarrow> p | _ \<Rightarrow> 0) = 0"
    if "globals L = ?g" for L :: lua_State
    using that by (simp add: executor_context)
  have ex: "luaV_execute 10 True [[SCall ''next'' [], SCall ''close'' [], SCall ''mes'' [EStr ''Halt!'']]] ?g quiet_world
    = Some (Finished [], ?g, ShowWarning (''[lua::mes]: Trying to call with no proper context.'' @ [CHR 0x0A]) quiet_world)"
    by (simp add: luaV_execute_numeral executor_context luaD_precallC_def bridge_invalid inv)
  show ?thesis
    by (simp add: run_unfold ex bridge_invalid inv ShowWarning_def quiet_world_simps)
qed

subsection \<open>The mode in which \<open>run\<close> loads its program\<close>

text \<open>
  Claim C8 at a failing input.  \<open>run\<close> is handed the source text \<^verbatim>\<open>mes("Halt!")\<close> instead
  of a compiled program.  \<^verbatim>\<open>luaL_loadbuffer\<close> takes the string \<^verbatim>\<open>"b"\<close> as the chunk's name
  and loads with no mode restriction, so the text is compiled and run and the line is
  sent.  A load in binary-only mode (\<^verbatim>\<open>luaL_loadbufferx\<close> with mode \<^verbatim>\<open>"b"\<close>) rejects the
  same bytes.
\<close>
theorem run_accepts_source_text:
  "final_world (run 10 (executor 12288 4096 8192) [Source [SCall ''mes'' [EStr ''Halt!'']]] 1 quiet_world)
   = Done (quiet_world\<lparr>packets := [ScriptMes 4096 17 (Some ''Halt!'')]\<rparr>) \<and>
   fst (luaL_loadbuffer (ex_lua (executor 12288 4096 8192)) [Source [SCall ''mes'' [EStr ''Halt!'']]] 1 ''b'')
   = LUA_OK \<and>
   fst (luaL_loadbufferx (ex_lua (executor 12288 4096 8192)) [Source [SCall ''mes'' [EStr ''Halt!'']]] 1
          ''mes'' (Some ''b''))
   = LUA_ERRSYNTAX"
proof -
  let ?g = "globals (ex_lua (executor 12288 4096 8192))"
  have ex: "luaV_execute 10 True [[SCall ''mes'' [EStr ''Halt!'']]] ?g quiet_world
    = Some (Finished [], ?g, clif_scriptmes 4096 (bl_id (npc_heap quiet_world 8192)) (Some ''Halt!'') quiet_world)"
    by (simp add: luaV_execute_numeral executor_context luaD_precallC_def
          bridge_valid(1) [where sd = 4096 and nd = 8192])
  show ?thesis
    by (simp add: run_unfold ex luaL_loadbuffer_def luaL_loadbufferx_def clif_scriptmes_def quiet_world_simps
          LUA_OK_def LUA_ERRSYNTAX_def)
qed


end
